theory Spec2Isabelle
  imports Complex_Main
begin

section \<open>JavaScript values\<close>

text \<open>
  The program is one browser script, \<^verbatim>\<open>src/script.js\<close>.  Its values are JavaScript
  values; the ones that reach the functions below come from parsed JSON, from the page
  and from string literals of the script.

  \<^item> A string is the list of its UTF-16 code units (\<open>jsstring\<close>), which is what
    JavaScript's \<^verbatim>\<open>===\<close>, \<^verbatim>\<open>replace\<close>, \<^verbatim>\<open>split\<close> and \<^verbatim>\<open>trim\<close> work on.  \<open>js\<close> turns an
    ASCII literal into code units; the script's Chinese literals are written out as
    code units.
  \<^item> A number is \<open>NaN\<close>, an infinity or a finite value.  Finite values are exact
    rationals: the rounding of IEEE doubles is not modelled, and \<open>-0\<close> is the same as
    \<open>0\<close> (the script cannot tell them apart: it only uses \<^verbatim>\<open>===\<close>, \<^verbatim>\<open><\<close>, \<^verbatim>\<open>>=\<close>,
    \<^verbatim>\<open>!\<close> and \<^verbatim>\<open>||\<close> on numbers).
  \<^item> An object is the association list of its own properties, an array the list of
    its elements.
\<close>

type_synonym jsstring = "nat list"

definition js :: "string \<Rightarrow> jsstring" where
  "js s = map of_char s"

datatype jsnum = NaN | Fin rat | PosInf | NegInf

datatype jsval =
    Undefined
  | Null
  | Bool bool
  | Num jsnum
  | Str jsstring
  | Arr "jsval list"
  | Obj "(jsstring \<times> jsval) list"

datatype js_error = TypeError | SyntaxError | NetworkFailure | DataFormatError

text \<open>The script's placeholder for a missing field, a two-character Chinese literal
  meaning "unknown" (code units U+672A, U+77E5).\<close>

definition unknown :: jsstring where
  "unknown = [26410, 30693]"

subsection \<open>Arithmetic and comparison of numbers\<close>

fun jadd :: "jsnum \<Rightarrow> jsnum \<Rightarrow> jsnum" where
  "jadd (Fin a) (Fin b) = Fin (a + b)"
| "jadd NaN _ = NaN"
| "jadd _ NaN = NaN"
| "jadd PosInf NegInf = NaN"
| "jadd NegInf PosInf = NaN"
| "jadd PosInf _ = PosInf"
| "jadd _ PosInf = PosInf"
| "jadd NegInf _ = NegInf"
| "jadd _ NegInf = NegInf"

text \<open>Multiplication and division by a finite constant, the only kinds the script has
  (\<^verbatim>\<open>/ 2\<close>, \<^verbatim>\<open>* 5\<close>, \<^verbatim>\<open>* 0.15\<close>, \<^verbatim>\<open>* 100\<close>).\<close>

fun jmul :: "jsnum \<Rightarrow> rat \<Rightarrow> jsnum" where
  "jmul NaN k = NaN"
| "jmul (Fin a) k = Fin (a * k)"
| "jmul PosInf k = (if k = 0 then NaN else if 0 < k then PosInf else NegInf)"
| "jmul NegInf k = (if k = 0 then NaN else if 0 < k then NegInf else PosInf)"

fun jdiv :: "jsnum \<Rightarrow> rat \<Rightarrow> jsnum" where
  "jdiv NaN k = NaN"
| "jdiv (Fin a) k =
     (if k = 0 then (if a = 0 then NaN else if 0 < a then PosInf else NegInf)
      else Fin (a / k))"
| "jdiv PosInf k = (if 0 \<le> k then PosInf else NegInf)"
| "jdiv NegInf k = (if 0 \<le> k then NegInf else PosInf)"

text \<open>\<^verbatim>\<open>x < k\<close> and \<^verbatim>\<open>x >= k\<close> for a finite constant \<open>k\<close>: both are false on \<open>NaN\<close>.\<close>

fun jlt :: "jsnum \<Rightarrow> rat \<Rightarrow> bool" where
  "jlt NaN k = False"
| "jlt (Fin a) k = (a < k)"
| "jlt PosInf k = False"
| "jlt NegInf k = True"

fun jge :: "jsnum \<Rightarrow> rat \<Rightarrow> bool" where
  "jge NaN k = False"
| "jge (Fin a) k = (k \<le> a)"
| "jge PosInf k = True"
| "jge NegInf k = False"

subsection \<open>Truthiness, property access\<close>

text \<open>\<^verbatim>\<open>ToBoolean\<close>: what \<^verbatim>\<open>!x\<close>, \<^verbatim>\<open>x || y\<close>, \<^verbatim>\<open>x && y\<close> and \<^verbatim>\<open>if (x)\<close> test.\<close>

fun truthy :: "jsval \<Rightarrow> bool" where
  "truthy Undefined = False"
| "truthy Null = False"
| "truthy (Bool b) = b"
| "truthy (Num NaN) = False"
| "truthy (Num (Fin a)) = (a \<noteq> 0)"
| "truthy (Num _) = True"
| "truthy (Str s) = (s \<noteq> [])"
| "truthy (Arr _) = True"
| "truthy (Obj _) = True"

definition js_or :: "jsval \<Rightarrow> jsval \<Rightarrow> jsval" where
  "js_or a b = (if truthy a then a else b)"

text \<open>
  \<^verbatim>\<open>x.name\<close>: a \<^verbatim>\<open>TypeError\<close> on \<^verbatim>\<open>undefined\<close> and \<^verbatim>\<open>null\<close>, the own property of an
  object or \<^verbatim>\<open>undefined\<close>.  The script reads only names that no prototype defines
  (\<^verbatim>\<open>code\<close>, \<^verbatim>\<open>data\<close>, \<^verbatim>\<open>ip\<close>, \<^verbatim>\<open>abuser_score\<close>, \<^verbatim>\<open>is_vpn\<close>, ...), so on a primitive or an
  array the result is \<^verbatim>\<open>undefined\<close>.
\<close>

fun get_prop :: "jsval \<Rightarrow> jsstring \<Rightarrow> js_error + jsval" where
  "get_prop Undefined k = Inl TypeError"
| "get_prop Null k = Inl TypeError"
| "get_prop (Obj kvs) k = Inr (case map_of kvs k of None \<Rightarrow> Undefined | Some v \<Rightarrow> v)"
| "get_prop _ k = Inr Undefined"

text \<open>\<^verbatim>\<open>x?.name\<close>: \<^verbatim>\<open>undefined\<close> instead of the \<^verbatim>\<open>TypeError\<close>.\<close>

definition get_prop_opt :: "jsval \<Rightarrow> jsstring \<Rightarrow> jsval" where
  "get_prop_opt x k = (case get_prop x k of Inl _ \<Rightarrow> Undefined | Inr v \<Rightarrow> v)"

subsection \<open>\<^verbatim>\<open>parseFloat\<close>\<close>

definition is_ws :: "nat \<Rightarrow> bool" where
  "is_ws c = (c \<in> set [9, 10, 11, 12, 13, 32, 160, 5760, 8192, 8193, 8194, 8195, 8196,
     8197, 8198, 8199, 8200, 8201, 8202, 8232, 8233, 8239, 8287, 12288, 65279])"

definition is_digit :: "nat \<Rightarrow> bool" where
  "is_digit c = (48 \<le> c \<and> c \<le> 57)"

definition digits_val :: "nat list \<Rightarrow> nat" where
  "digits_val ds = foldl (\<lambda>acc d. 10 * acc + (d - 48)) 0 ds"

text \<open>A leading \<^verbatim>\<open>+\<close> or \<^verbatim>\<open>-\<close>: whether the sign is negative, and the rest.\<close>

fun take_sign :: "jsstring \<Rightarrow> bool \<times> jsstring" where
  "take_sign [] = (False, [])"
| "take_sign (c # cs) =
     (if c = 45 then (True, cs) else if c = 43 then (False, cs) else (False, c # cs))"

text \<open>The exponent part \<^verbatim>\<open>e\<close>/\<^verbatim>\<open>E\<close>, optional sign, digits; \<open>0\<close> when it is not there
  or has no digit.\<close>

fun exponent_part :: "jsstring \<Rightarrow> int" where
  "exponent_part [] = 0"
| "exponent_part (c # cs) =
     (if c = 101 \<or> c = 69 then
        (let (eneg, r) = take_sign cs; ed = takeWhile is_digit r
         in if ed = [] then 0
            else if eneg then - int (digits_val ed) else int (digits_val ed))
      else 0)"

definition scale10 :: "rat \<Rightarrow> int \<Rightarrow> rat" where
  "scale10 m e = (if 0 \<le> e then m * 10 ^ nat e else m / 10 ^ nat (- e))"

text \<open>
  \<^verbatim>\<open>parseFloat\<close> of a string: leading white space is dropped, then the longest prefix
  that is a decimal literal (\<^verbatim>\<open>Infinity\<close>, or digits with an optional fraction and
  exponent, with an optional sign) gives the number; \<open>NaN\<close> when there is none.
\<close>

definition parseFloat_str :: "jsstring \<Rightarrow> jsnum" where
  "parseFloat_str s =
     (let (neg, u) = take_sign (dropWhile is_ws s) in
      if take 8 u = js ''Infinity'' then (if neg then NegInf else PosInf)
      else
        let ip = takeWhile is_digit u;
            r1 = dropWhile is_digit u;
            dot = (r1 \<noteq> [] \<and> hd r1 = 46);
            fp = (if dot then takeWhile is_digit (tl r1) else []);
            r2 = (if dot then dropWhile is_digit (tl r1) else r1)
        in if ip = [] \<and> fp = [] then NaN
           else
             let m = rat_of_nat (digits_val (ip @ fp)) / 10 ^ length fp;
                 v = scale10 m (exponent_part r2)
             in Fin (if neg then - v else v))"

text \<open>
  \<^verbatim>\<open>parseFloat(x)\<close> first turns \<open>x\<close> into a string.  That throws a \<^verbatim>\<open>TypeError\<close> for an
  object that has an own property \<^verbatim>\<open>toString\<close> (from JSON it is never a function, and
  the inherited \<^verbatim>\<open>valueOf\<close> returns the object), and for an array with such an element,
  since an array is joined from all its elements.
\<close>

fun to_string_throws :: "jsval \<Rightarrow> bool" where
  "to_string_throws (Obj kvs) = (map_of kvs (js ''toString'') \<noteq> None)"
| "to_string_throws (Arr xs) = list_ex to_string_throws xs"
| "to_string_throws _ = False"

text \<open>
  The number \<^verbatim>\<open>parseFloat\<close> reads off the string of a value: a number gives itself
  (its string is a decimal literal of it), \<^verbatim>\<open>"undefined"\<close>, \<^verbatim>\<open>"null"\<close>, \<^verbatim>\<open>"true"\<close>,
  \<^verbatim>\<open>"false"\<close> and \<^verbatim>\<open>"[object Object]"\<close> give \<open>NaN\<close>, and the string of an array starts
  with the string of its first element, followed by a comma or the end (an empty string
  for \<^verbatim>\<open>null\<close> and \<^verbatim>\<open>undefined\<close>), neither of which continues a decimal literal.
\<close>

fun lead_num :: "jsval \<Rightarrow> jsnum" where
  "lead_num (Num n) = n"
| "lead_num (Str s) = parseFloat_str s"
| "lead_num (Arr (x # xs)) = lead_num x"
| "lead_num _ = NaN"

definition parseFloat :: "jsval \<Rightarrow> js_error + jsnum" where
  "parseFloat x = (if to_string_throws x then Inl TypeError else Inr (lead_num x))"

text \<open>\<^verbatim>\<open>n || 0\<close> on a number: \<open>NaN\<close> and \<open>0\<close> are falsy.\<close>

definition or_zero :: "jsnum \<Rightarrow> jsnum" where
  "or_zero n = (if truthy (Num n) then n else Fin 0)"

section \<open>Scores and badges\<close>

text \<open>\<^verbatim>\<open>getThreatBadgeClass(score)\<close>, lines 524-532.\<close>

definition getThreatBadgeClass :: "jsval \<Rightarrow> js_error + jsstring" where
  "getThreatBadgeClass score =
     (if \<not> truthy score then Inr (js ''badge-info'')
      else case parseFloat score of
        Inl e \<Rightarrow> Inl e
      | Inr numScore \<Rightarrow>
          if jlt numScore (1 / 1000) then Inr (js ''badge-success'')
          else if jlt numScore (1 / 100) then Inr (js ''badge-info'')
          else if jlt numScore (1 / 10) then Inr (js ''badge-warning'')
          else Inr (js ''badge-danger''))"

text \<open>The first two lines of \<^verbatim>\<open>calculateAbuseScore\<close> (537, 538), for one score:
  \<^verbatim>\<open>if (!score || score === unknown) score = 0\<close>.\<close>

definition zero_if_missing :: "jsval \<Rightarrow> jsval" where
  "zero_if_missing score = (if \<not> truthy score \<or> score = Str unknown then Num (Fin 0) else score)"

definition risk_flag_names :: "jsstring list" where
  "risk_flag_names = [js ''is_crawler'', js ''is_proxy'', js ''is_vpn'', js ''is_tor'',
     js ''is_abuser'', js ''is_bogon'']"

fun get_props :: "jsval \<Rightarrow> jsstring list \<Rightarrow> js_error + jsval list" where
  "get_props x [] = Inr []"
| "get_props x (k # ks) =
     (case get_prop x k of
        Inl e \<Rightarrow> Inl e
      | Inr v \<Rightarrow> (case get_props x ks of Inl e \<Rightarrow> Inl e | Inr vs \<Rightarrow> Inr (v # vs)))"

text \<open>
  \<^verbatim>\<open>calculateAbuseScore(companyScore, asnScore, securityFlags = {})\<close>, lines 535-568.
  The result is \<open>Inl\<close> an exception, \<open>Inr None\<close> for \<^verbatim>\<open>null\<close>, or \<open>Inr (Some n)\<close>.
\<close>

definition calculateAbuseScore :: "jsval \<Rightarrow> jsval \<Rightarrow> jsval \<Rightarrow> js_error + jsnum option" where
  "calculateAbuseScore companyScore asnScore securityFlags0 =
     (let securityFlags = (if securityFlags0 = Undefined then Obj [] else securityFlags0) in
      case parseFloat (zero_if_missing companyScore) of
        Inl e \<Rightarrow> Inl e
      | Inr c \<Rightarrow>
      (case parseFloat (zero_if_missing asnScore) of
        Inl e \<Rightarrow> Inl e
      | Inr a \<Rightarrow>
          let company = or_zero c;
              asn = or_zero a;
              baseScore = jmul (jdiv (jadd company asn) 2) 5
          in case get_props securityFlags risk_flag_names of
            Inl e \<Rightarrow> Inl e
          | Inr riskFlags \<Rightarrow>
              let riskCount = length (filter (\<lambda>flag. flag = Bool True) riskFlags);
                  riskAddition = jmul (Fin (rat_of_nat riskCount)) (15 / 100);
                  finalScore = jadd baseScore riskAddition
              in if baseScore = Fin 0 \<and> riskAddition = Fin 0 then Inr None
                 else Inr (Some finalScore)))"

text \<open>
  \<^verbatim>\<open>getAbuseScoreBadgeClass(percentage)\<close>, lines 571-579.  The argument is \<^verbatim>\<open>null\<close> or
  \<^verbatim>\<open>undefined\<close> (\<open>None\<close>: the first line treats them alike) or a number, which is all
  its caller passes.
\<close>

definition getAbuseScoreBadgeClass :: "jsnum option \<Rightarrow> jsstring" where
  "getAbuseScoreBadgeClass percentage =
     (case percentage of
        None \<Rightarrow> js ''badge-info''
      | Some p \<Rightarrow>
          if jge p 100 then js ''badge-critical''
          else if jge p 20 then js ''badge-high''
          else if jge p 5 then js ''badge-elevated''
          else if jge p (25 / 100) then js ''badge-low''
          else js ''badge-verylow'')"


subsection \<open>The score parts of \<^verbatim>\<open>showIpDetailModal\<close>\<close>

text \<open>The five risk-level words of lines 644-649, from "extremely dangerous" down to
  "extremely clean".\<close>

definition level_critical :: jsstring where "level_critical = [26497, 24230, 21361, 38505]"
definition level_high :: jsstring where "level_high = [39640, 39118, 38505]"
definition level_elevated :: jsstring where "level_elevated = [36731, 24494, 39118, 38505]"
definition level_low :: jsstring where "level_low = [32431, 20928]"
definition level_verylow :: jsstring where "level_verylow = [26497, 24230, 32431, 20928]"

definition riskLevel :: "jsnum \<Rightarrow> jsstring" where
  "riskLevel scorePercentage =
     (if jge scorePercentage 100 then level_critical
      else if jge scorePercentage 20 then level_high
      else if jge scorePercentage 5 then level_elevated
      else if jge scorePercentage (25 / 100) then level_low
      else level_verylow)"




text \<open>
  Lines 886-888 and 935-936: the badge of the company section and of the ASN section,
  \<^verbatim>\<open>getThreatBadgeClass(section.abuser_score || unknown)\<close>, when \<open>data\<close> has the section
  (\<open>None\<close> when it has not).
\<close>

definition sectionBadgeClass :: "jsstring \<Rightarrow> jsval \<Rightarrow> js_error + jsstring option" where
  "sectionBadgeClass name data =
     (case get_prop data name of
        Inl e \<Rightarrow> Inl e
      | Inr section \<Rightarrow>
          if truthy section then
            (case get_prop section (js ''abuser_score'') of
               Inl e \<Rightarrow> Inl e
             | Inr v \<Rightarrow>
                 (case getThreatBadgeClass (js_or v (Str unknown)) of
                    Inl e \<Rightarrow> Inl e
                  | Inr badgeClass \<Rightarrow> Inr (Some badgeClass)))
          else Inr None)"

section \<open>Strings\<close>

text \<open>\<^verbatim>\<open>s.trim()\<close>: white space and line terminators are removed at both ends.\<close>

definition trim :: "jsstring \<Rightarrow> jsstring" where
  "trim s = rev (dropWhile is_ws (rev (dropWhile is_ws s)))"

text \<open>\<^verbatim>\<open>s.split(c)\<close> for a separator of one character.\<close>

fun split_on :: "nat \<Rightarrow> jsstring \<Rightarrow> jsstring list" where
  "split_on c [] = [[]]"
| "split_on c (x # xs) =
     (if x = c then [] # split_on c xs
      else case split_on c xs of [] \<Rightarrow> [[x]] | p # ps \<Rightarrow> (x # p) # ps)"

text \<open>\<^verbatim>\<open>s.replace(/c/g, d)\<close> for a pattern \<open>c\<close> and a replacement \<open>d\<close> of one character
  each: the global flag makes the scan go on after a match.\<close>

fun replace_all :: "nat \<Rightarrow> nat \<Rightarrow> jsstring \<Rightarrow> jsstring" where
  "replace_all c d [] = []"
| "replace_all c d (x # xs) = (if x = c then d # replace_all c d xs else x # replace_all c d xs)"

text \<open>The decimal digits of a natural number, as a template literal prints a time
  stamp or an array index names a property.\<close>

function show_nat :: "nat \<Rightarrow> jsstring" where
  "show_nat n = (if n < 10 then [48 + n] else show_nat (n div 10) @ [48 + n mod 10])"
  by pat_completeness auto
termination
  by (relation "measure id") auto

fun join_comma :: "jsstring list \<Rightarrow> jsstring" where
  "join_comma [] = []"
| "join_comma [x] = x"
| "join_comma (x # y # zs) = x @ [44] @ join_comma (y # zs)"

text \<open>The tokens of a class attribute: the pieces between ASCII white space.\<close>

definition is_ascii_ws :: "nat \<Rightarrow> bool" where
  "is_ascii_ws c = (c = 9 \<or> c = 10 \<or> c = 12 \<or> c = 13 \<or> c = 32)"

fun class_tokens :: "jsstring \<Rightarrow> jsstring list" where
  "class_tokens [] = []"
| "class_tokens (x # xs) =
     (if is_ascii_ws x then class_tokens xs
      else case xs of
        [] \<Rightarrow> [[x]]
      | y # ys \<Rightarrow>
          if is_ascii_ws y then [x] # class_tokens xs
          else (case class_tokens xs of [] \<Rightarrow> [[x]] | t # ts \<Rightarrow> (x # t) # ts))"

section \<open>The world outside the script\<close>

text \<open>
  What a request brings back: \<^verbatim>\<open>fetch\<close> rejects (a network error), or it resolves with a
  response that has a status, a body text and, when the text is JSON, its value
  (\<^verbatim>\<open>response.json()\<close> rejects with a \<^verbatim>\<open>SyntaxError\<close> otherwise).  Every request
  settles: the transport's own time limit is the only one there is.
\<close>

record response =
  status :: nat
  json_body :: "jsval option"
  text_body :: jsstring

datatype fetched = FetchRejected | FetchResponse response

text \<open>
  The world: what each endpoint answers (the answer does not depend on the cache-busting
  parameter \<^verbatim>\<open>t\<close>, so \<open>respond\<close> takes the address without it), what \<^verbatim>\<open>Date.now()\<close>
  returns, and how the engine prints a number (\<^verbatim>\<open>Number::toString\<close>, a built-in whose
  digits play no role below).
\<close>

record world =
  respond :: "jsstring \<Rightarrow> fetched"
  clock :: nat
  number_text :: "jsnum \<Rightarrow> jsstring"


definition response_json :: "response \<Rightarrow> js_error + jsval" where
  "response_json r = (case json_body r of None \<Rightarrow> Inl SyntaxError | Some d \<Rightarrow> Inr d)"

text \<open>
  \<^verbatim>\<open>ToString\<close> of a value from JSON.  It throws exactly when \<open>to_string_throws\<close>; an
  array is its elements' strings joined by commas, \<^verbatim>\<open>null\<close> and \<^verbatim>\<open>undefined\<close> elements
  giving the empty string.
\<close>

fun str_of :: "(jsnum \<Rightarrow> jsstring) \<Rightarrow> jsval \<Rightarrow> jsstring" where
  "str_of nt Undefined = js ''undefined''"
| "str_of nt Null = js ''null''"
| "str_of nt (Bool b) = (if b then js ''true'' else js ''false'')"
| "str_of nt (Num n) = nt n"
| "str_of nt (Str s) = s"
| "str_of nt (Arr xs) =
     join_comma (map (\<lambda>x. if x = Undefined \<or> x = Null then [] else str_of nt x) xs)"
| "str_of nt (Obj kvs) = js ''[object Object]''"

definition to_string :: "world \<Rightarrow> jsval \<Rightarrow> js_error + jsstring" where
  "to_string W v = (if to_string_throws v then Inl TypeError else Inr (str_of (number_text W) v))"

text \<open>\<^verbatim>\<open>x[i]\<close> for an index \<open>i\<close>.\<close>

fun get_index :: "jsval \<Rightarrow> nat \<Rightarrow> js_error + jsval" where
  "get_index Undefined i = Inl TypeError"
| "get_index Null i = Inl TypeError"
| "get_index (Arr xs) i = Inr (if i < length xs then xs ! i else Undefined)"
| "get_index (Str s) i = Inr (if i < length s then Str [s ! i] else Undefined)"
| "get_index (Obj kvs) i = Inr (case map_of kvs (show_nat i) of None \<Rightarrow> Undefined | Some v \<Rightarrow> v)"
| "get_index _ i = Inr Undefined"

section \<open>The page\<close>

text \<open>
  The markup of the page is not part of the script.  The model has the elements the
  script addresses by id, each of which may be missing, with the two things the script
  reads and writes: the child nodes (a text, or a \<^verbatim>\<open>span\<close> with a class and a text) and the
  class attribute.  \<open>ipip_title\<close> is the text of the parent element of \<^verbatim>\<open>#status-ipip\<close>,
  the card's title (\<open>None\<close> when the indicator has no parent element); the title is
  taken to contain the indicator and its own text only, none of the card's fields.
  \<open>trace\<close> records the requests sent and the console messages, in order.
\<close>

datatype node = TextNode jsstring | SpanNode jsstring jsstring

record element =
  children :: "node list"
  className :: jsstring

datatype event = Fetch jsstring | ConsoleLog jsstring | ConsoleWarn jsstring | ConsoleError jsstring

record page =
  elems :: "jsstring \<Rightarrow> element option"
  ipip_title :: "jsstring option"
  cards_container :: bool
  trace :: "event list"

text \<open>The literals "loading..." and "loading failed".\<close>

definition loading_text :: jsstring where
  "loading_text = [21152, 36733, 20013, 46, 46, 46]"

definition failed_text :: jsstring where
  "failed_text = [21152, 36733, 22833, 36133]"

fun node_text :: "node \<Rightarrow> jsstring" where
  "node_text (TextNode t) = t"
| "node_text (SpanNode c t) = t"

definition textContent :: "element \<Rightarrow> jsstring" where
  "textContent e = concat (map node_text (children e))"

text \<open>\<^verbatim>\<open>e.querySelector('.c')\<close> is not \<^verbatim>\<open>null\<close>.\<close>

fun node_has_class :: "jsstring \<Rightarrow> node \<Rightarrow> bool" where
  "node_has_class c (TextNode t) = False"
| "node_has_class c (SpanNode cls t) = (c \<in> set (class_tokens cls))"

definition has_child :: "jsstring \<Rightarrow> element \<Rightarrow> bool" where
  "has_child c e = list_ex (node_has_class c) (children e)"

text \<open>\<^verbatim>\<open>e.classList.contains(c)\<close> and \<^verbatim>\<open>e.classList.add(c)\<close>.\<close>

definition has_class :: "jsstring \<Rightarrow> element \<Rightarrow> bool" where
  "has_class c e = (c \<in> set (class_tokens (className e)))"

definition add_class :: "jsstring \<Rightarrow> element \<Rightarrow> element" where
  "add_class c e =
     (if has_class c e then e
      else e\<lparr>className := foldr (\<lambda>t acc. if acc = [] then t else t @ [32] @ acc)
             (remdups (class_tokens (className e)) @ [c]) []\<rparr>)"

subsection \<open>Statements that may throw\<close>

text \<open>A run of statements takes the page and ends normally with a value or with an
  exception; either way the writes made up to there stay.\<close>

type_synonym 'a prog = "page \<Rightarrow> (js_error + 'a) \<times> page"

definition andThen :: "'a prog \<Rightarrow> ('a \<Rightarrow> 'b prog) \<Rightarrow> 'b prog" where
  "andThen m f s = (case m s of (Inl e, s') \<Rightarrow> (Inl e, s') | (Inr x, s') \<Rightarrow> f x s')"

definition pure_step :: "js_error + 'a \<Rightarrow> 'a prog" where
  "pure_step r s = (r, s)"

definition effect :: "(page \<Rightarrow> page) \<Rightarrow> unit prog" where
  "effect f s = (Inr (), f s)"

text \<open>\<^verbatim>\<open>try { body } catch (error) { handler }\<close>.\<close>

definition try_catch :: "unit prog \<Rightarrow> unit prog \<Rightarrow> unit prog" where
  "try_catch body handler s =
     (case body s of (Inl e, s') \<Rightarrow> handler s' | (Inr x, s') \<Rightarrow> (Inr x, s'))"

text \<open>How an \<^verbatim>\<open>async\<close> function settles.\<close>

datatype settled = Fulfilled | RejectedWith js_error

definition settle :: "unit prog \<Rightarrow> page \<Rightarrow> settled \<times> page" where
  "settle m s = (case m s of (Inl e, s') \<Rightarrow> (RejectedWith e, s') | (Inr x, s') \<Rightarrow> (Fulfilled, s'))"

definition console :: "event \<Rightarrow> page \<Rightarrow> page" where
  "console ev s = s\<lparr>trace := trace s @ [ev]\<rparr>"

text \<open>\<^verbatim>\<open>await fetch(request)\<close>, where \<open>endpoint\<close> is the request without the parameter
  \<^verbatim>\<open>t\<close>.\<close>

definition fetch :: "world \<Rightarrow> jsstring \<Rightarrow> jsstring \<Rightarrow> response prog" where
  "fetch W endpoint request s =
     (case respond W endpoint of
        FetchRejected \<Rightarrow> (Inl NetworkFailure, console (Fetch request) s)
      | FetchResponse r \<Rightarrow> (Inr r, console (Fetch request) s))"

text \<open>
  \<^verbatim>\<open>document.getElementById(i).textContent = v\<close>.  A \<^verbatim>\<open>TypeError\<close> when there is no
  such element; \<^verbatim>\<open>null\<close> and \<^verbatim>\<open>undefined\<close> are written as the empty string, anything else
  as its string; an empty text leaves no child node.
\<close>

definition dom_string :: "world \<Rightarrow> jsval \<Rightarrow> js_error + jsstring" where
  "dom_string W v = (if v = Undefined \<or> v = Null then Inr [] else to_string W v)"

definition text_children :: "jsstring \<Rightarrow> node list" where
  "text_children t = (if t = [] then [] else [TextNode t])"

definition set_textContent :: "world \<Rightarrow> jsstring \<Rightarrow> jsval \<Rightarrow> unit prog" where
  "set_textContent W i v s =
     (case elems s i of
        None \<Rightarrow> (Inl TypeError, s)
      | Some e \<Rightarrow>
          (case dom_string W v of
             Inl err \<Rightarrow> (Inl err, s)
           | Inr t \<Rightarrow> (Inr (), s\<lparr>elems := (elems s)(i \<mapsto> e\<lparr>children := text_children t\<rparr>)\<rparr>)))"

text \<open>\<^verbatim>\<open>document.getElementById(i).innerHTML = '<span class="error">...</span>'\<close> with
  the "loading failed" text.\<close>

definition set_error_markup :: "jsstring \<Rightarrow> unit prog" where
  "set_error_markup i s =
     (case elems s i of
        None \<Rightarrow> (Inl TypeError, s)
      | Some e \<Rightarrow>
          (Inr (), s\<lparr>elems := (elems s)(i \<mapsto> e\<lparr>children := [SpanNode (js ''error'') failed_text]\<rparr>)\<rparr>))"

text \<open>\<^verbatim>\<open>setStatus(id, status)\<close>, lines 88-93.\<close>

definition setStatus :: "jsstring \<Rightarrow> jsstring \<Rightarrow> page \<Rightarrow> page" where
  "setStatus i st s =
     (case elems s i of
        None \<Rightarrow> s
      | Some indicator \<Rightarrow>
          s\<lparr>elems := (elems s)(i \<mapsto> indicator\<lparr>className := js ''status-indicator status-'' @ st\<rparr>)\<rparr>)"

section \<open>The domestic card: \<^verbatim>\<open>fetchIpipData\<close>\<close>

record result =
  ip :: jsval
  country :: jsval
  city :: jsval

record config =
  name :: jsstring
  url :: jsstring
  parser :: "jsval \<Rightarrow> js_error + result"

text \<open>The three parsers of lines 203-237.  \<^verbatim>\<open>throw new Error(...)\<close> is
  \<open>DataFormatError\<close>.\<close>

definition parser_speedtest :: "jsval \<Rightarrow> js_error + result" where
  "parser_speedtest data =
     (case get_prop data (js ''code'') of
        Inl e \<Rightarrow> Inl e
      | Inr code \<Rightarrow>
          if code = Num (Fin 0) \<and> truthy (get_prop_opt data (js ''data'')) then
            (let d = get_prop_opt data (js ''data'') in
             Inr \<lparr>ip = js_or (get_prop_opt d (js ''ip'')) (Str unknown),
                  country = js_or (get_prop_opt d (js ''country'')) (Str unknown),
                  city = js_or (get_prop_opt d (js ''city'')) (Str unknown)\<rparr>)
          else Inl DataFormatError)"

definition parser_ipipv :: "jsval \<Rightarrow> js_error + result" where
  "parser_ipipv data =
     (case get_prop data (js ''Ip'') of
        Inl e \<Rightarrow> Inl e
      | Inr i \<Rightarrow>
          Inr \<lparr>ip = js_or i (Str unknown),
               country = js_or (get_prop_opt data (js ''Country'')) (Str unknown),
               city = js_or (get_prop_opt data (js ''City'')) (Str unknown)\<rparr>)"

definition parser_ipip :: "jsval \<Rightarrow> js_error + result" where
  "parser_ipip data =
     (case get_prop data (js ''ret'') of
        Inl e \<Rightarrow> Inl e
      | Inr ret \<Rightarrow>
          if ret = Str (js ''ok'') \<and> truthy (get_prop_opt data (js ''data'')) then
            (let d = get_prop_opt data (js ''data'');
                 location = get_prop_opt d (js ''location'')
             in case get_index location 0 of
                  Inl e \<Rightarrow> Inl e
                | Inr l0 \<Rightarrow>
                    (case get_index location 2 of
                       Inl e \<Rightarrow> Inl e
                     | Inr l2 \<Rightarrow>
                         Inr \<lparr>ip = js_or (get_prop_opt d (js ''ip'')) (Str unknown),
                              country = js_or l0 (Str unknown),
                              city = js_or l2 (Str unknown)\<rparr>))
          else Inl DataFormatError)"

definition apiConfigs :: "config list" where
  "apiConfigs =
     [\<lparr>name = js ''speedtest.cn'', url = js ''https://api-v3.speedtest.cn/ip'',
       parser = parser_speedtest\<rparr>,
      \<lparr>name = js ''ipipv.com'', url = js ''https://myip.ipipv.com/'', parser = parser_ipipv\<rparr>,
      \<lparr>name = js ''ipip.net'', url = js ''https://myip.ipip.net/json'', parser = parser_ipip\<rparr>]"

text \<open>Lines 245-249: the address with the time stamp appended.\<close>

definition stamped :: "world \<Rightarrow> jsstring \<Rightarrow> jsstring" where
  "stamped W u = u @ (if 63 \<in> set u then js ''&'' else js ''?'') @ js ''t='' @ show_nat (clock W)"

text \<open>
  Lines 263-266: with a title element, its markup becomes a fresh, empty indicator
  \<^verbatim>\<open><span class="status-indicator" id="status-ipip">\<close> followed by the card's name with
  the provider's name in brackets, and the status is set again.
\<close>

definition title_text :: "jsstring \<Rightarrow> jsstring" where
  "title_text provider = [22269, 20869, 27979, 35797, 65288] @ provider @ [65289]"

definition update_title :: "jsstring \<Rightarrow> page \<Rightarrow> page" where
  "update_title provider s =
     (case ipip_title s of
        None \<Rightarrow> s
      | Some old \<Rightarrow>
          setStatus (js ''status-ipip'') (js ''success'')
            (s\<lparr>ipip_title := Some (title_text provider),
               elems := (elems s)(js ''status-ipip'' \<mapsto>
                 \<lparr>children = [], className = js ''status-indicator''\<rparr>)\<rparr>))"

definition log_success :: "jsstring \<Rightarrow> event" where
  "log_success provider = ConsoleLog ([20351, 29992, 32] @ provider @ [32, 65, 80, 73, 32, 25104, 21151])"

definition warn_failed :: "jsstring \<Rightarrow> event" where
  "warn_failed provider = ConsoleWarn (provider @ [32, 25509, 21475, 22833, 36133, 58])"

text \<open>The body of the \<^verbatim>\<open>try\<close> of lines 243-269, for one provider.\<close>

definition try_provider :: "world \<Rightarrow> config \<Rightarrow> unit prog" where
  "try_provider W config =
     andThen (fetch W (url config) (stamped W (url config))) (\<lambda>response.
     andThen (pure_step (response_json response)) (\<lambda>data.
     andThen (pure_step (parser config data)) (\<lambda>result.
     andThen (set_textContent W (js ''ipip-ip'') (ip result)) (\<lambda>_.
     andThen (set_textContent W (js ''ipip-country'') (country result)) (\<lambda>_.
     andThen (set_textContent W (js ''ipip-city'') (city result)) (\<lambda>_.
     andThen (effect (setStatus (js ''status-ipip'') (js ''success''))) (\<lambda>_.
     andThen (effect (update_title (name config))) (\<lambda>_.
     effect (console (log_success (name config)))))))))))"

text \<open>The loop of lines 242-274: \<open>True\<close> when a provider succeeded and the function
  returned from inside the loop, \<open>False\<close> when the loop ran to its end.\<close>

fun cascade :: "world \<Rightarrow> config list \<Rightarrow> page \<Rightarrow> bool \<times> page" where
  "cascade W [] s = (False, s)"
| "cascade W (config # rest) s =
     (case try_provider W config s of
        (Inr _, s') \<Rightarrow> (True, s')
      | (Inl error, s') \<Rightarrow> cascade W rest (console (warn_failed (name config)) s'))"

definition all_failed_message :: jsstring where
  "all_failed_message =
     [25152, 26377, 22269, 20869, 27979, 35797, 32, 65, 80, 73, 32, 37117, 22833, 36133]"

text \<open>Lines 276-282, after the loop.\<close>

definition ipip_failure :: "world \<Rightarrow> unit prog" where
  "ipip_failure W =
     andThen (set_error_markup (js ''ipip-ip'')) (\<lambda>_.
     andThen (set_textContent W (js ''ipip-country'') (Str [])) (\<lambda>_.
     andThen (set_textContent W (js ''ipip-city'') (Str [])) (\<lambda>_.
     andThen (effect (setStatus (js ''status-ipip'') (js ''error''))) (\<lambda>_.
     effect (console (ConsoleError all_failed_message))))))"

text \<open>
  \<^verbatim>\<open>fetchIpipData\<close>, lines 192-283, for a list of providers.  Line 196 throws when there
  is no \<^verbatim>\<open>#status-ipip\<close>; the title element it finds is there for the whole run.
\<close>

definition fetchIpipData_with :: "config list \<Rightarrow> world \<Rightarrow> page \<Rightarrow> settled \<times> page" where
  "fetchIpipData_with configs W s =
     (let s1 = setStatus (js ''status-ipip'') (js ''loading'') s in
      case elems s1 (js ''status-ipip'') of
        None \<Rightarrow> (RejectedWith TypeError, s1)
      | Some indicator \<Rightarrow>
          (case cascade W configs s1 of
             (True, s2) \<Rightarrow> (Fulfilled, s2)
           | (False, s2) \<Rightarrow> settle (ipip_failure W) s2))"

definition fetchIpipData :: "world \<Rightarrow> page \<Rightarrow> settled \<times> page" where
  "fetchIpipData = fetchIpipData_with apiConfigs"

section \<open>The other three cards\<close>

text \<open>The \<^verbatim>\<open>catch\<close> blocks of the three functions: the error marker, the two other
  fields cleared, the status, a console message.\<close>

definition card_failure :: "world \<Rightarrow> jsstring \<Rightarrow> jsstring \<Rightarrow> unit prog" where
  "card_failure W cardname message =
     andThen (set_error_markup (cardname @ js ''-ip'')) (\<lambda>_.
     andThen (set_textContent W (cardname @ js ''-country'') (Str [])) (\<lambda>_.
     andThen (set_textContent W (cardname @ js ''-city'') (Str [])) (\<lambda>_.
     andThen (effect (setStatus (js ''status-'' @ cardname) (js ''error''))) (\<lambda>_.
     effect (console (ConsoleError message))))))"

definition edgeone_url :: jsstring where
  "edgeone_url = js ''https://api.ipapi.cmliussss.net''"

text \<open>\<^verbatim>\<open>fetchEdgeOneData\<close>, lines 288-309.\<close>

definition fetchEdgeOneData :: "world \<Rightarrow> page \<Rightarrow> settled \<times> page" where
  "fetchEdgeOneData W s =
     settle
       (try_catch
          (andThen (fetch W edgeone_url edgeone_url) (\<lambda>response.
           andThen (pure_step (response_json response)) (\<lambda>data.
           andThen (pure_step (get_prop data (js ''ip''))) (\<lambda>i.
           andThen (set_textContent W (js ''edgeone-ip'') (js_or i (Str unknown))) (\<lambda>_.
           andThen (pure_step (get_prop data (js ''location''))) (\<lambda>location.
           andThen (pure_step (get_prop location (js ''country_code''))) (\<lambda>cc.
           andThen (set_textContent W (js ''edgeone-country'') (js_or cc (Str unknown))) (\<lambda>_.
           andThen (pure_step (get_prop data (js ''asn''))) (\<lambda>asn.
           andThen (pure_step (get_prop asn (js ''asn''))) (\<lambda>number.
           andThen (pure_step (to_string W number)) (\<lambda>number_string.
           andThen (pure_step (get_prop asn (js ''org''))) (\<lambda>org.
           andThen (pure_step (to_string W org)) (\<lambda>org_string.
           andThen (set_textContent W (js ''edgeone-city'')
                      (js_or (Str (js ''AS'' @ number_string @ js '' '' @ org_string)) (Str unknown))) (\<lambda>_.
           effect (setStatus (js ''status-edgeone'') (js ''success''))))))))))))))))
          (card_failure W (js ''edgeone'')
             [69, 100, 103, 101, 79, 110, 101, 32, 25509, 21475, 38169, 35823, 58]))
       (setStatus (js ''status-edgeone'') (js ''loading'') s)"

definition cf_url :: jsstring where
  "cf_url = js ''https://cf.090227.xyz/ip.json''"

text \<open>\<^verbatim>\<open>fetchCloudFlareData\<close>, lines 314-337.\<close>

definition fetchCloudFlareData :: "world \<Rightarrow> page \<Rightarrow> settled \<times> page" where
  "fetchCloudFlareData W s =
     settle
       (try_catch
          (andThen (fetch W cf_url (cf_url @ js ''?t='' @ show_nat (clock W))) (\<lambda>response.
           andThen (pure_step (response_json response)) (\<lambda>data.
           andThen (pure_step (get_prop data (js ''ip''))) (\<lambda>i.
           andThen (set_textContent W (js ''cf-ip'') (js_or i (Str unknown))) (\<lambda>_.
           andThen (pure_step (get_prop data (js ''country''))) (\<lambda>c.
           andThen (set_textContent W (js ''cf-country'') (js_or c (Str unknown))) (\<lambda>_.
           andThen (pure_step (get_prop data (js ''org''))) (\<lambda>org.
           andThen (set_textContent W (js ''cf-city'') (js_or org (Str unknown))) (\<lambda>_.
           effect (setStatus (js ''status-cf'') (js ''success'')))))))))))
          (card_failure W (js ''cf'')
             [67, 108, 111, 117, 100, 70, 108, 97, 114, 101, 32, 25509, 21475, 38169, 35823, 58]))
       (setStatus (js ''status-cf'') (js ''loading'') s)"

definition twitter_url :: jsstring where
  "twitter_url = js ''https://x.com/cdn-cgi/trace''"

text \<open>
  Lines 353-359: the body text is split into lines, a line at \<^verbatim>\<open>=\<close>; a line whose first
  two pieces are both non-empty sets the trimmed first piece to the trimmed second one.
  A later line overwrites an earlier one, so the newest binding is put in front.  (A key
  \<^verbatim>\<open>__proto__\<close> sets no property in JavaScript; the three names read afterwards are not
  affected by it.)
\<close>

definition trace_line :: "jsstring \<Rightarrow> (jsstring \<times> jsval) list \<Rightarrow> (jsstring \<times> jsval) list" where
  "trace_line line data =
     (case split_on 61 line of
        key # value # others \<Rightarrow>
          if key \<noteq> [] \<and> value \<noteq> [] then (trim key, Str (trim value)) # data else data
      | _ \<Rightarrow> data)"

definition parse_trace :: "jsstring \<Rightarrow> jsval" where
  "parse_trace text = Obj (fold trace_line (split_on 10 text) [])"

text \<open>\<^verbatim>\<open>fetchTwitterData\<close>, lines 342-374.\<close>

definition fetchTwitterData :: "world \<Rightarrow> page \<Rightarrow> settled \<times> page" where
  "fetchTwitterData W s =
     settle
       (try_catch
          (andThen (fetch W twitter_url (twitter_url @ js ''?t='' @ show_nat (clock W))) (\<lambda>response.
           (let data = parse_trace (text_body response) in
           andThen (set_textContent W (js ''twitter-ip'')
                      (js_or (get_prop_opt data (js ''ip'')) (Str unknown))) (\<lambda>_.
           andThen (set_textContent W (js ''twitter-country'')
                      (js_or (get_prop_opt data (js ''loc'')) (Str unknown))) (\<lambda>_.
           andThen (set_textContent W (js ''twitter-city'')
                      (js_or (get_prop_opt data (js ''colo'')) (Str []))) (\<lambda>_.
           effect (setStatus (js ''status-twitter'') (js ''success''))))))))
          (card_failure W (js ''twitter'')
             [25512, 29305, 20837, 21475, 25509, 21475, 38169, 35823, 58]))
       (setStatus (js ''status-twitter'') (js ''loading'') s)"

section \<open>Loading the four cards\<close>

text \<open>\<^verbatim>\<open>markIpAsClickable\<close>, lines 425-444, on the elements of class \<^verbatim>\<open>ip-text\<close>.\<close>

definition mark_element :: "element \<Rightarrow> element" where
  "mark_element e =
     (let ipText = trim (textContent e) in
      if has_child (js ''error'') e \<or> ipText = loading_text \<or> ipText = unknown
         \<or> has_class (js ''clickable'') e
      then e
      else add_class (js ''clickable'') e)"

definition markIpAsClickable :: "page \<Rightarrow> page" where
  "markIpAsClickable s =
     s\<lparr>elems := (\<lambda>i. case elems s i of
                        None \<Rightarrow> None
                      | Some e \<Rightarrow> Some (if has_class (js ''ip-text'') e then mark_element e else e))\<rparr>"

text \<open>\<^verbatim>\<open>Promise.all\<close>: fulfilled when all are, rejected with the first rejection
  otherwise.\<close>

fun promise_all :: "settled list \<Rightarrow> settled" where
  "promise_all [] = Fulfilled"
| "promise_all (Fulfilled # rs) = promise_all rs"
| "promise_all (RejectedWith e # rs) = RejectedWith e"

text \<open>
  \<^verbatim>\<open>loadNetworkInfo\<close>, lines 402-415.  The four functions are started together and
  take turns at their \<^verbatim>\<open>await\<close>s; each writes only the elements of its own card, so
  they are run here one after the other.
\<close>

definition loadNetworkInfo :: "world \<Rightarrow> page \<Rightarrow> settled \<times> page" where
  "loadNetworkInfo W s =
     (if cards_container s then
        (let (r1, s1) = fetchIpipData W s;
             (r2, s2) = fetchEdgeOneData W s1;
             (r3, s3) = fetchCloudFlareData W s2;
             (r4, s4) = fetchTwitterData W s3
         in case promise_all [r1, r2, r3, r4] of
              Fulfilled \<Rightarrow> (Fulfilled, markIpAsClickable s4)
            | RejectedWith e \<Rightarrow> (RejectedWith e, s4))
      else (Fulfilled, s))"

section \<open>The detail lookup\<close>

definition detail_prefix :: jsstring where
  "detail_prefix = js ''https://api.ipapi.cmliussss.net/?ip=''"

text \<open>
  \<^verbatim>\<open>fetchAndShowIpDetails(ipElement)\<close>, lines 451-476: the address it requests, or
  \<open>None\<close> when it returns before the request (a spinner is there, or the text is
  "loading..." or "unknown").  What it does with the response is not part of this
  definition.
\<close>

definition fetchAndShowIpDetails_request :: "element \<Rightarrow> jsstring option" where
  "fetchAndShowIpDetails_request ipElement =
     (let ipText = trim (textContent ipElement) in
      if has_child (js ''loading-spinner'') ipElement then None
      else if ipText = loading_text \<or> ipText = unknown then None
      else
        let cleanIp = replace_all 42 48 ipText
        in Some (detail_prefix @ cleanIp))"

section \<open>Notions used in the statements\<close>



text \<open>How many of the six flags of a flags object are the boolean \<^verbatim>\<open>true\<close>.\<close>

definition flag_count :: "jsval \<Rightarrow> nat" where
  "flag_count securityFlags =
     length (filter (\<lambda>k. get_prop_opt securityFlags k = Bool True) risk_flag_names)"

subsection \<open>The page without its trace, and the fields of the domestic card\<close>

definition untraced :: "page \<Rightarrow> page" where
  "untraced s = s\<lparr>trace := []\<rparr>"



text \<open>The elements \<^verbatim>\<open>fetchIpipData\<close> writes are on the page.\<close>

definition card_present :: "page \<Rightarrow> bool" where
  "card_present s = (elems s (js ''ipip-ip'') \<noteq> None \<and> elems s (js ''ipip-country'') \<noteq> None
      \<and> elems s (js ''ipip-city'') \<noteq> None \<and> elems s (js ''status-ipip'') \<noteq> None)"

text \<open>The elements of all four cards are on the page.\<close>

definition card_ids :: "jsstring list" where
  "card_ids =
     [js ''status-ipip'', js ''ipip-ip'', js ''ipip-country'', js ''ipip-city'',
      js ''edgeone-ip'', js ''edgeone-country'', js ''edgeone-city'',
      js ''cf-ip'', js ''cf-country'', js ''cf-city'',
      js ''twitter-ip'', js ''twitter-country'', js ''twitter-city'']"

definition cards_present :: "page \<Rightarrow> bool" where
  "cards_present s = list_all (\<lambda>i. elems s i \<noteq> None) card_ids"

subsection \<open>What a provider answers\<close>

text \<open>
  The outcome of one provider's \<^verbatim>\<open>try\<close> block as far as the world decides it: the three
  texts it shows when the request is answered, the body is JSON, the parser returns and
  its three fields can be written as text; the exception otherwise.  The status of the
  response plays no part.
\<close>

definition provider_result :: "world \<Rightarrow> config \<Rightarrow> js_error + jsstring \<times> jsstring \<times> jsstring" where
  "provider_result W config =
     (case respond W (url config) of
        FetchRejected \<Rightarrow> Inl NetworkFailure
      | FetchResponse r \<Rightarrow>
      (case response_json r of
        Inl e \<Rightarrow> Inl e
      | Inr data \<Rightarrow>
      (case parser config data of
        Inl e \<Rightarrow> Inl e
      | Inr res \<Rightarrow>
      (case dom_string W (ip res) of
        Inl e \<Rightarrow> Inl e
      | Inr a \<Rightarrow>
      (case dom_string W (country res) of
        Inl e \<Rightarrow> Inl e
      | Inr b \<Rightarrow>
      (case dom_string W (city res) of
        Inl e \<Rightarrow> Inl e
      | Inr c \<Rightarrow> Inr (a, b, c)))))))"

text \<open>The first provider of a list that succeeds, with its texts.\<close>

fun first_success :: "world \<Rightarrow> config list \<Rightarrow> (config \<times> jsstring \<times> jsstring \<times> jsstring) option" where
  "first_success W [] = None"
| "first_success W (p # rest) =
     (case provider_result W p of Inr r \<Rightarrow> Some (p, r) | Inl e \<Rightarrow> first_success W rest)"

text \<open>The requests and console messages of the loop: for each provider tried, its
  request and then a warning (it failed) or the success message (the last one tried).\<close>

fun cascade_trace :: "world \<Rightarrow> config list \<Rightarrow> event list" where
  "cascade_trace W [] = []"
| "cascade_trace W (p # rest) =
     Fetch (stamped W (url p)) #
       (case provider_result W p of
          Inr r \<Rightarrow> [log_success (name p)]
        | Inl e \<Rightarrow> warn_failed (name p) # cascade_trace W rest)"



subsection \<open>The page after \<^verbatim>\<open>fetchIpipData\<close>\<close>

definition put_children :: "jsstring \<Rightarrow> node list \<Rightarrow> page \<Rightarrow> page" where
  "put_children i c s =
     (case elems s i of None \<Rightarrow> s | Some e \<Rightarrow> s\<lparr>elems := (elems s)(i \<mapsto> e\<lparr>children := c\<rparr>)\<rparr>)"

definition overwrite3 :: "node list \<Rightarrow> node list \<Rightarrow> node list \<Rightarrow> page \<Rightarrow> page" where
  "overwrite3 x y z s =
     put_children (js ''ipip-city'') z (put_children (js ''ipip-country'') y
       (put_children (js ''ipip-ip'') x s))"

text \<open>The page a successful provider leaves, and the page the failure path leaves.\<close>

definition shown_success :: "jsstring \<Rightarrow> jsstring \<times> jsstring \<times> jsstring \<Rightarrow> page \<Rightarrow> page" where
  "shown_success provider r s =
     (case r of (a, b, c) \<Rightarrow>
        update_title provider (setStatus (js ''status-ipip'') (js ''success'')
          (overwrite3 (text_children a) (text_children b) (text_children c) s)))"

definition shown_failure :: "page \<Rightarrow> page" where
  "shown_failure s =
     setStatus (js ''status-ipip'') (js ''error'')
       (overwrite3 [SpanNode (js ''error'') failed_text] [] [] s)"

text \<open>Two pages that differ at most in what the three fields show and in the trace: any
  later writing of all three fields makes them equal.\<close>

definition absorbed :: "page \<Rightarrow> page \<Rightarrow> bool" where
  "absorbed s s' = (\<forall>x y z. untraced (overwrite3 x y z s') = untraced (overwrite3 x y z s))"

text \<open>A run of statements, or a change of the page, removes no element.\<close>

definition keeps :: "'a prog \<Rightarrow> bool" where
  "keeps m = (\<forall>s i. elems s i \<noteq> None \<longrightarrow> elems (snd (m s)) i \<noteq> None)"

definition keeps_elements :: "(page \<Rightarrow> page) \<Rightarrow> bool" where
  "keeps_elements f = (\<forall>s i. elems s i \<noteq> None \<longrightarrow> elems (f s) i \<noteq> None)"

subsection \<open>A page and three worlds to run the script on\<close>

text \<open>The page as it is loaded: every field shows "loading...".\<close>

definition demo_element :: element where
  "demo_element = \<lparr>children = [TextNode loading_text], className = js ''ip-text''\<rparr>"

definition demo_page :: page where
  "demo_page =
     \<lparr>elems = (\<lambda>i. if i = js ''status-ipip'' then Some \<lparr>children = [], className = js ''status-indicator''\<rparr>
                    else if i \<in> set card_ids then Some demo_element else None),
      ipip_title = Some [22269, 20869, 27979, 35797],
      cards_container = True,
      trace = []\<rparr>"

text \<open>The first provider answers with status \<open>500\<close> and a body its parser accepts, the
  second with status \<open>200\<close>.\<close>

definition demo_world_500 :: world where
  "demo_world_500 =
     \<lparr>respond = (\<lambda>u.
        if u = js ''https://api-v3.speedtest.cn/ip'' then
          FetchResponse \<lparr>status = 500,
            json_body = Some (Obj [(js ''code'', Num (Fin 0)),
              (js ''data'', Obj [(js ''ip'', Str (js ''9.9.9.9''))])]),
            text_body = []\<rparr>
        else if u = js ''https://myip.ipipv.com/'' then
          FetchResponse \<lparr>status = 200,
            json_body = Some (Obj [(js ''Ip'', Str (js ''1.1.1.1''))]),
            text_body = []\<rparr>
        else FetchRejected),
      clock = 0,
      number_text = (\<lambda>n. [])\<rparr>"

text \<open>The first and the third provider cannot be reached, the second answers.\<close>

definition demo_world_fallback :: world where
  "demo_world_fallback =
     \<lparr>respond = (\<lambda>u.
        if u = js ''https://myip.ipipv.com/'' then
          FetchResponse \<lparr>status = 200,
            json_body = Some (Obj [(js ''Ip'', Str (js ''1.1.1.1''))]),
            text_body = []\<rparr>
        else FetchRejected),
      clock = 0,
      number_text = (\<lambda>n. [])\<rparr>"

text \<open>No request is answered.\<close>

definition demo_world_down :: world where
  "demo_world_down = \<lparr>respond = (\<lambda>u. FetchRejected), clock = 0, number_text = (\<lambda>n. [])\<rparr>"

section \<open>The abuse score\<close>

lemma parseFloat_str_unknown: "parseFloat_str unknown = NaN"
  by (simp add: parseFloat_str_def unknown_def is_ws_def is_digit_def js_def)


lemma unknown_nonempty: "unknown \<noteq> []"
  by (simp add: unknown_def)


lemma get_props_total:
  "x \<noteq> Undefined \<Longrightarrow> x \<noteq> Null \<Longrightarrow> get_props x ks = Inr (map (get_prop_opt x) ks)"
  by (induction ks) (cases x; simp add: get_prop_opt_def)+











text \<open>
  Outside the data model, two scores of opposite sign cancel to \<^verbatim>\<open>null\<close>, and a negative
  score gives a negative result: the script does not check the range of a score.
\<close>

lemma negative_scores:
  "calculateAbuseScore (Num (Fin (- 1 / 5))) (Num (Fin (1 / 5))) Undefined = Inr None"
  "calculateAbuseScore (Num (Fin (- 1))) (Num (Fin 0)) Undefined = Inr (Some (Fin (- 5 / 2)))"
  by (simp_all add: calculateAbuseScore_def zero_if_missing_def parseFloat_def or_zero_def
      risk_flag_names_def)

lemma getThreatBadgeClass_number:
  assumes "q \<noteq> 0"
  shows "getThreatBadgeClass (Num (Fin q)) =
     Inr (if q < 1 / 1000 then js ''badge-success''
          else if q < 1 / 100 then js ''badge-info''
          else if q < 1 / 10 then js ''badge-warning''
          else js ''badge-danger'')"
  using assms by (simp add: getThreatBadgeClass_def parseFloat_def)

text \<open>
  Claim C3.  \<^verbatim>\<open>getThreatBadgeClass\<close> itself maps an absent score to \<^verbatim>\<open>badge-info\<close>, but
  the modal never passes it an absent score: it passes
  \<^verbatim>\<open>abuser_score || unknown\<close>.  For a company section without \<^verbatim>\<open>abuser_score\<close>, and for
  an ASN section whose \<^verbatim>\<open>abuser_score\<close> is the number \<open>0\<close>, the badge class is
  \<^verbatim>\<open>badge-danger\<close>.
\<close>

theorem threat_badge_missing_score:
  "getThreatBadgeClass Undefined = Inr (js ''badge-info'')
   \<and> sectionBadgeClass (js ''company'') (Obj [(js ''company'', Obj [(js ''name'', Str (js ''ACME''))])])
       = Inr (Some (js ''badge-danger''))
   \<and> sectionBadgeClass (js ''asn'') (Obj [(js ''asn'', Obj [(js ''abuser_score'', Num (Fin 0))])])
       = Inr (Some (js ''badge-danger''))
   \<and> js ''badge-danger'' \<noteq> js ''badge-info''"
  by (simp add: getThreatBadgeClass_def sectionBadgeClass_def js_or_def parseFloat_def
      parseFloat_str_unknown unknown_nonempty js_def)

text \<open>
  Claim C4.  The badge class of a percentage, and the risk level the modal prints next to
  it, follow the thresholds \<open>100\<close>, \<open>20\<close>, \<open>5\<close> and \<open>0.25\<close>, each inclusive at its lower
  bound, the highest that applies: critical, high, elevated, low, and very low below
  \<open>0.25\<close> (and for \<open>NaN\<close>).  The score of two zero scores with only \<^verbatim>\<open>is_vpn\<close> set is
  \<open>0.15\<close>, its percentage \<open>15\<close> is elevated, and a \<^verbatim>\<open>null\<close> or \<^verbatim>\<open>undefined\<close> percentage
  gives \<^verbatim>\<open>badge-info\<close>.
\<close>

theorem severity_buckets:
  "(100 \<le> p \<longrightarrow> getAbuseScoreBadgeClass (Some (Fin p)) = js ''badge-critical''
        \<and> riskLevel (Fin p) = level_critical)
   \<and> (20 \<le> p \<and> p < 100 \<longrightarrow> getAbuseScoreBadgeClass (Some (Fin p)) = js ''badge-high''
        \<and> riskLevel (Fin p) = level_high)
   \<and> (5 \<le> p \<and> p < 20 \<longrightarrow> getAbuseScoreBadgeClass (Some (Fin p)) = js ''badge-elevated''
        \<and> riskLevel (Fin p) = level_elevated)
   \<and> (25 / 100 \<le> p \<and> p < 5 \<longrightarrow> getAbuseScoreBadgeClass (Some (Fin p)) = js ''badge-low''
        \<and> riskLevel (Fin p) = level_low)
   \<and> (p < 25 / 100 \<longrightarrow> getAbuseScoreBadgeClass (Some (Fin p)) = js ''badge-verylow''
        \<and> riskLevel (Fin p) = level_verylow)
   \<and> getAbuseScoreBadgeClass (Some PosInf) = js ''badge-critical''
   \<and> getAbuseScoreBadgeClass (Some NaN) = js ''badge-verylow''
   \<and> getAbuseScoreBadgeClass (Some NegInf) = js ''badge-verylow''
   \<and> calculateAbuseScore (Num (Fin 0)) (Num (Fin 0)) (Obj [(js ''is_vpn'', Bool True)])
        = Inr (Some (Fin (15 / 100)))
   \<and> jmul (Fin (15 / 100)) 100 = Fin 15
   \<and> getAbuseScoreBadgeClass (Some (jmul (Fin (15 / 100)) 100)) = js ''badge-elevated''
   \<and> getAbuseScoreBadgeClass None = js ''badge-info''"
proof -
  have ex: "calculateAbuseScore (Num (Fin 0)) (Num (Fin 0)) (Obj [(js ''is_vpn'', Bool True)])
        = Inr (Some (Fin (15 / 100)))"
    by (simp add: calculateAbuseScore_def zero_if_missing_def parseFloat_def or_zero_def
        risk_flag_names_def js_def)
  show ?thesis
    unfolding ex by (simp add: getAbuseScoreBadgeClass_def riskLevel_def)
qed

theorem severity_buckets_witness:
  "(5::rat) \<le> 15 \<and> (15::rat) < 20 \<and> getAbuseScoreBadgeClass (Some (Fin 15)) = js ''badge-elevated''
   \<and> riskLevel (Fin 15) = level_elevated
   \<and> (20::rat) \<le> 20 \<and> (20::rat) < 100 \<and> getAbuseScoreBadgeClass (Some (Fin 20)) = js ''badge-high''
   \<and> (100::rat) \<le> 100 \<and> getAbuseScoreBadgeClass (Some (Fin 100)) = js ''badge-critical''
   \<and> (25 / 100 ::rat) \<le> 5 / 2 \<and> (5 / 2 ::rat) < 5
   \<and> getAbuseScoreBadgeClass (Some (Fin (5 / 2))) = js ''badge-low''
   \<and> (1 / 10 ::rat) < 25 / 100 \<and> getAbuseScoreBadgeClass (Some (Fin (1 / 10))) = js ''badge-verylow''"
  using severity_buckets [of 15] severity_buckets [of 20] severity_buckets [of 100]
    severity_buckets [of "5 / 2"] severity_buckets [of "1 / 10"]
  by simp

lemma get_flag_true:
  "(get_prop_opt (Obj X) k = Bool True) = (map_of X k = Some (Bool True))"
  by (cases "map_of X k") (simp_all add: get_prop_opt_def)

lemma calc_flags_cong:
  assumes "\<And>k. k \<in> set risk_flag_names \<Longrightarrow>
    (map_of X k = Some (Bool True)) = (map_of Y k = Some (Bool True))"
  shows "calculateAbuseScore c a (Obj X) = calculateAbuseScore c a (Obj Y)"
proof -
  have "filter (\<lambda>k. get_prop_opt (Obj X) k = Bool True) risk_flag_names
      = filter (\<lambda>k. get_prop_opt (Obj Y) k = Bool True) risk_flag_names"
    by (rule filter_cong) (simp_all add: get_flag_true assms)
  then have "flag_count (Obj X) = flag_count (Obj Y)"
    by (simp add: flag_count_def)
  then show ?thesis
    by (cases "parseFloat (zero_if_missing c)"; cases "parseFloat (zero_if_missing a)")
       (simp_all add: calculateAbuseScore_def get_props_total filter_map comp_def flag_count_def Let_def)
qed

text \<open>
  Claim C10.  Only a flag that is the boolean \<^verbatim>\<open>true\<close> counts: for all scores and every
  flags object, a flag with any other value (\<open>1\<close>, \<^verbatim>\<open>'true'\<close>, any string, ...) can be
  replaced by \<^verbatim>\<open>false\<close>, and an absent flag can be added as \<^verbatim>\<open>false\<close>, without changing
  what \<^verbatim>\<open>calculateAbuseScore\<close> returns.
\<close>

theorem risk_flags_strict_true:
  "(v \<noteq> Bool True \<longrightarrow>
      calculateAbuseScore c a (Obj ((k, v) # kvs)) = calculateAbuseScore c a (Obj ((k, Bool False) # kvs)))
   \<and> (map_of kvs k = None \<longrightarrow>
      calculateAbuseScore c a (Obj kvs) = calculateAbuseScore c a (Obj ((k, Bool False) # kvs)))"
proof (intro conjI impI)
  assume "v \<noteq> Bool True"
  then show "calculateAbuseScore c a (Obj ((k, v) # kvs))
      = calculateAbuseScore c a (Obj ((k, Bool False) # kvs))"
    by (intro calc_flags_cong) simp
next
  assume "map_of kvs k = None"
  then show "calculateAbuseScore c a (Obj kvs) = calculateAbuseScore c a (Obj ((k, Bool False) # kvs))"
    by (intro calc_flags_cong) auto
qed

lemma calc_false_flag:
  "calculateAbuseScore (Num (Fin (1 / 10))) Undefined (Obj [(js ''is_vpn'', Bool False)])
     = Inr (Some (Fin (1 / 4)))"
  by (simp add: calculateAbuseScore_def zero_if_missing_def parseFloat_def or_zero_def
      risk_flag_names_def js_def)

theorem risk_flags_strict_true_witness:
  "Num (Fin 1) \<noteq> Bool True \<and> Str (js ''true'') \<noteq> Bool True
   \<and> map_of ([] :: (jsstring \<times> jsval) list) (js ''is_vpn'') = None
   \<and> calculateAbuseScore (Num (Fin (1 / 10))) Undefined (Obj [(js ''is_vpn'', Num (Fin 1))])
       = Inr (Some (Fin (1 / 4)))
   \<and> calculateAbuseScore (Num (Fin (1 / 10))) Undefined (Obj [(js ''is_vpn'', Str (js ''true''))])
       = Inr (Some (Fin (1 / 4)))
   \<and> calculateAbuseScore (Num (Fin (1 / 10))) Undefined (Obj []) = Inr (Some (Fin (1 / 4)))"
  using risk_flags_strict_true [of "Num (Fin 1)" "Num (Fin (1 / 10))" Undefined "js ''is_vpn''" "[]"]
    risk_flags_strict_true [of "Str (js ''true'')" "Num (Fin (1 / 10))" Undefined "js ''is_vpn''" "[]"]
  by (simp add: calc_false_flag)

section \<open>The provider cascade\<close>

subsection \<open>Writes to the page\<close>

lemma js_append: "js a @ js b = js (a @ b)"
  by (simp add: js_def)

lemma ids_distinct [simp]:
  "js ''ipip-ip'' \<noteq> js ''ipip-country''" "js ''ipip-ip'' \<noteq> js ''ipip-city''"
  "js ''ipip-country'' \<noteq> js ''ipip-city''" "js ''ipip-country'' \<noteq> js ''ipip-ip''"
  "js ''ipip-city'' \<noteq> js ''ipip-ip''" "js ''ipip-city'' \<noteq> js ''ipip-country''"
  "js ''status-ipip'' \<noteq> js ''ipip-ip''" "js ''status-ipip'' \<noteq> js ''ipip-country''"
  "js ''status-ipip'' \<noteq> js ''ipip-city''" "js ''ipip-ip'' \<noteq> js ''status-ipip''"
  "js ''ipip-country'' \<noteq> js ''status-ipip''" "js ''ipip-city'' \<noteq> js ''status-ipip''"
  by (simp_all add: js_def)

lemma set_textContent_ok:
  "elems s i \<noteq> None \<Longrightarrow> dom_string W v = Inr t \<Longrightarrow>
   set_textContent W i v s = (Inr (), put_children i (text_children t) s)"
  by (auto simp: set_textContent_def put_children_def)

lemma set_textContent_throws:
  "elems s i \<noteq> None \<Longrightarrow> dom_string W v = Inl e \<Longrightarrow> set_textContent W i v s = (Inl e, s)"
  by (auto simp: set_textContent_def)

lemma elems_put_children:
  "elems (put_children i c s) j =
     (if j = i then map_option (\<lambda>e. e\<lparr>children := c\<rparr>) (elems s i) else elems s j)"
  by (simp add: put_children_def split: option.splits)

lemma elems_console [simp]: "elems (console ev s) = elems s"
  by (simp add: console_def)

lemma card_present_console [simp]: "card_present (console ev s) = card_present s"
  by (simp add: card_present_def)

lemma card_present_put [simp]: "card_present (put_children i c s) = card_present s"
  by (auto simp: card_present_def elems_put_children)

lemma untraced_console [simp]: "untraced (console ev s) = untraced s"
  by (simp add: untraced_def console_def)

lemma untraced_put: "untraced (put_children i c s) = put_children i c (untraced s)"
  by (simp add: untraced_def put_children_def split: option.splits)

lemma put_console: "put_children i c (console ev s) = console ev (put_children i c s)"
  by (simp add: console_def put_children_def split: option.splits)

lemma put_put_same [simp]: "put_children i c (put_children i c' s) = put_children i c s"
  by (simp add: put_children_def split: option.splits)

lemma put_put_swap: "i \<noteq> j \<Longrightarrow>
  put_children i c (put_children j d s) = put_children j d (put_children i c s)"
  by (auto simp: put_children_def fun_upd_twist split: option.splits)

lemma overwrite3_console: "overwrite3 x y z (console ev s) = console ev (overwrite3 x y z s)"
  by (simp add: overwrite3_def put_console)

lemma absorbed_refl [simp]: "absorbed s s"
  by (simp add: absorbed_def)

lemma absorbed_trans: "absorbed s t \<Longrightarrow> absorbed t u \<Longrightarrow> absorbed s u"
  by (simp add: absorbed_def)

lemma absorbed_console: "absorbed s (console ev s)"
  by (simp add: absorbed_def overwrite3_console)

lemma absorbed_put_ip: "absorbed s (put_children (js ''ipip-ip'') c s)"
  by (simp add: absorbed_def overwrite3_def)

lemma absorbed_put_country: "absorbed s (put_children (js ''ipip-country'') c s)"
proof -
  have "put_children (js ''ipip-ip'') x (put_children (js ''ipip-country'') c s)
      = put_children (js ''ipip-country'') c (put_children (js ''ipip-ip'') x s)" for x
    by (rule put_put_swap) simp
  then show ?thesis by (simp add: absorbed_def overwrite3_def)
qed

lemma try_provider_Inr:
  assumes "card_present s" and "provider_result W cfg = Inr (a, b, c)"
  shows "try_provider W cfg s =
    (Inr (), console (log_success (name cfg)) (update_title (name cfg)
       (setStatus (js ''status-ipip'') (js ''success'')
         (overwrite3 (text_children a) (text_children b) (text_children c)
           (console (Fetch (stamped W (url cfg))) s)))))"
  using assms
  by (auto simp: try_provider_def provider_result_def andThen_def fetch_def pure_step_def effect_def
      overwrite3_def set_textContent_ok card_present_def elems_put_children
      split: fetched.splits sum.splits)

lemma absorbed_steps:
  "absorbed s t \<Longrightarrow> absorbed s (console ev t)"
  "absorbed s t \<Longrightarrow> absorbed s (put_children (js ''ipip-ip'') c t)"
  "absorbed s t \<Longrightarrow> absorbed s (put_children (js ''ipip-country'') c t)"
  using absorbed_trans absorbed_console absorbed_put_ip absorbed_put_country by blast+

lemma trace_put [simp]: "trace (put_children i c s) = trace s"
  by (simp add: put_children_def split: option.splits)

lemma trace_console [simp]: "trace (console ev s) = trace s @ [ev]"
  by (simp add: console_def)

lemma try_provider_Inl:
  assumes "card_present s" and "provider_result W cfg = Inl e"
  shows "\<exists>s'. try_provider W cfg s = (Inl e, s') \<and> absorbed s s' \<and> card_present s'
      \<and> trace s' = trace s @ [Fetch (stamped W (url cfg))]"
  using assms
  by (auto simp: try_provider_def provider_result_def andThen_def fetch_def pure_step_def
      set_textContent_ok set_textContent_throws card_present_def elems_put_children
      intro!: absorbed_steps
      split: fetched.splits sum.splits)

lemma untraced_setStatus: "untraced (setStatus i st s) = setStatus i st (untraced s)"
  by (simp add: untraced_def setStatus_def split: option.splits)

lemma untraced_update_title: "untraced (update_title n s) = update_title n (untraced s)"
  by (simp add: untraced_def update_title_def setStatus_def split: option.splits)

lemma untraced_overwrite3: "untraced (overwrite3 x y z s) = overwrite3 x y z (untraced s)"
  by (simp add: overwrite3_def untraced_put)

lemma untraced_shown_success:
  "untraced (shown_success n r s) = shown_success n r (untraced s)"
  by (cases r) (simp add: shown_success_def untraced_update_title untraced_setStatus untraced_overwrite3)

lemma untraced_shown_failure: "untraced (shown_failure s) = shown_failure (untraced s)"
  by (simp add: shown_failure_def untraced_setStatus untraced_overwrite3)

lemma shown_success_absorbed:
  assumes "absorbed s t"
  shows "untraced (shown_success n r t) = untraced (shown_success n r s)"
proof (cases r)
  case (fields a b c)
  have "untraced (overwrite3 (text_children a) (text_children b) (text_children c) t)
      = untraced (overwrite3 (text_children a) (text_children b) (text_children c) s)"
    using assms by (simp add: absorbed_def)
  then show ?thesis
    by (simp add: fields shown_success_def untraced_update_title untraced_setStatus)
qed

lemma shown_failure_absorbed:
  assumes "absorbed s t"
  shows "untraced (shown_failure t) = untraced (shown_failure s)"
  using assms by (simp add: shown_failure_def untraced_setStatus absorbed_def)

lemma elems_setStatus:
  "elems (setStatus i st s) j =
     (if j = i then map_option (\<lambda>e. e\<lparr>className := js ''status-indicator status-'' @ st\<rparr>) (elems s i)
      else elems s j)"
  by (simp add: setStatus_def split: option.splits)

lemma card_present_setStatus [simp]: "card_present (setStatus i st s) = card_present s"
  by (auto simp: card_present_def elems_setStatus)

lemma card_present_overwrite3 [simp]: "card_present (overwrite3 x y z s) = card_present s"
  by (simp add: overwrite3_def)

lemma card_present_update_title [simp]: "card_present s \<Longrightarrow> card_present (update_title n s)"
  by (auto simp: card_present_def update_title_def elems_setStatus split: option.splits)

lemma card_present_untraced [simp]: "card_present (untraced s) = card_present s"
  by (simp add: card_present_def untraced_def)

lemma card_present_absorbed: "absorbed s t \<Longrightarrow> card_present t = card_present s"
proof -
  assume "absorbed s t"
  then have "untraced (overwrite3 [] [] [] t) = untraced (overwrite3 [] [] [] s)"
    by (simp add: absorbed_def)
  then have "card_present (untraced (overwrite3 [] [] [] t))
      = card_present (untraced (overwrite3 [] [] [] s))" by simp
  then show ?thesis by simp
qed

lemma trace_setStatus [simp]: "trace (setStatus i st s) = trace s"
  by (simp add: setStatus_def split: option.splits)

lemma trace_update_title [simp]: "trace (update_title n s) = trace s"
  by (simp add: update_title_def split: option.splits)

lemma trace_overwrite3 [simp]: "trace (overwrite3 x y z s) = trace s"
  by (simp add: overwrite3_def)

lemma trace_shown_failure [simp]: "trace (shown_failure s) = trace s"
  by (simp add: shown_failure_def)

lemma cascade_char:
  assumes "card_present s"
  shows "\<exists>s'. cascade W ps s = (first_success W ps \<noteq> None, s')
      \<and> trace s' = trace s @ cascade_trace W ps
      \<and> (case first_success W ps of
            None \<Rightarrow> absorbed s s'
          | Some (p, r) \<Rightarrow> untraced s' = untraced (shown_success (name p) r s))"
  using assms
proof (induction ps arbitrary: s)
  case Nil
  then show ?case by simp
next
  case (Cons p ps)
  show ?case
  proof (cases "provider_result W p")
    case (Inr r)
    obtain a b c where r: "r = (a, b, c)" by (cases r)
    show ?thesis
      using Cons.prems Inr
      by (simp add: r try_provider_Inr shown_success_def untraced_update_title untraced_setStatus
          overwrite3_console)
  next
    case (Inl e)
    from try_provider_Inl [OF Cons.prems Inl] obtain s1 where
      s1: "try_provider W p s = (Inl e, s1)" "absorbed s s1" "card_present s1"
        "trace s1 = trace s @ [Fetch (stamped W (url p))]"
      by blast
    let ?s2 = "console (warn_failed (name p)) s1"
    have abs2: "absorbed s ?s2" using s1(2) by (rule absorbed_steps)
    have "card_present ?s2" using s1(3) by simp
    from Cons.IH [OF this] obtain s' where
      s': "cascade W ps ?s2 = (first_success W ps \<noteq> None, s')"
        "trace s' = trace ?s2 @ cascade_trace W ps"
        "case first_success W ps of
            None \<Rightarrow> absorbed ?s2 s'
          | Some (q, r) \<Rightarrow> untraced s' = untraced (shown_success (name q) r ?s2)"
      by blast
    have "case first_success W ps of
            None \<Rightarrow> absorbed s s'
          | Some (q, r) \<Rightarrow> untraced s' = untraced (shown_success (name q) r s)"
      using s'(3) abs2
      by (auto split: option.splits simp: shown_success_absorbed intro: absorbed_trans)
    then show ?thesis
      using s1 s' Inl by simp
  qed
qed

lemma ipip_failure_run:
  assumes "card_present s"
  shows "ipip_failure W s = (Inr (), console (ConsoleError all_failed_message) (shown_failure s))"
proof -
  have d: "dom_string W (Str []) = Inr []"
    by (simp add: dom_string_def to_string_def)
  show ?thesis
    using assms
    by (auto simp: ipip_failure_def andThen_def effect_def set_error_markup_def shown_failure_def
        overwrite3_def put_children_def card_present_def set_textContent_def d text_children_def
        split: option.splits)
qed

lemma fetchIpipData_char:
  assumes "card_present s"
  shows "\<exists>s'. fetchIpipData_with ps W s = (Fulfilled, s')
      \<and> trace s' = trace s @ cascade_trace W ps
            @ (if first_success W ps = None then [ConsoleError all_failed_message] else [])
      \<and> untraced s' = untraced (case first_success W ps of
            None \<Rightarrow> shown_failure (setStatus (js ''status-ipip'') (js ''loading'') s)
          | Some (p, r) \<Rightarrow> shown_success (name p) r (setStatus (js ''status-ipip'') (js ''loading'') s))"
proof -
  let ?s1 = "setStatus (js ''status-ipip'') (js ''loading'') s"
  have p1: "card_present ?s1" using assms by simp
  then have ind: "elems ?s1 (js ''status-ipip'') \<noteq> None" by (simp add: card_present_def)
  from cascade_char [OF p1, of W ps] obtain s2 where
    s2: "cascade W ps ?s1 = (first_success W ps \<noteq> None, s2)"
      "trace s2 = trace ?s1 @ cascade_trace W ps"
      "case first_success W ps of
            None \<Rightarrow> absorbed ?s1 s2
          | Some (p, r) \<Rightarrow> untraced s2 = untraced (shown_success (name p) r ?s1)"
    by blast
  show ?thesis
  proof (cases "first_success W ps")
    case None
    then have abs: "absorbed ?s1 s2" using s2(3) by simp
    then have "card_present s2" using p1 by (simp add: card_present_absorbed)
    then show ?thesis
      using None s2 ind abs
      by (auto simp: fetchIpipData_with_def Let_def settle_def ipip_failure_run
          shown_failure_absorbed)
  next
    case (Some pr)
    then show ?thesis
      using s2 ind
      by (auto simp: fetchIpipData_with_def Let_def)
  qed
qed

subsection \<open>What the page shows afterwards\<close>

lemma elems_untraced [simp]: "elems (untraced s) = elems s"
  by (simp add: untraced_def)

lemma title_untraced [simp]: "ipip_title (untraced s) = ipip_title s"
  by (simp add: untraced_def)


lemma title_setStatus [simp]: "ipip_title (setStatus i st s) = ipip_title s"
  by (simp add: setStatus_def split: option.splits)

lemma title_put [simp]: "ipip_title (put_children i c s) = ipip_title s"
  by (simp add: put_children_def split: option.splits)








subsection \<open>The three worlds\<close>


lemma provider_failure_kinds:
  "respond W (url p) = FetchRejected \<Longrightarrow> provider_result W p = Inl NetworkFailure"
  "respond W (url p) = FetchResponse r \<Longrightarrow> json_body r = None \<Longrightarrow>
     provider_result W p = Inl SyntaxError"
  "respond W (url p) = FetchResponse r \<Longrightarrow> json_body r = Some d \<Longrightarrow> parser p d = Inl e \<Longrightarrow>
     provider_result W p = Inl e"
  by (simp_all add: provider_result_def response_json_def)

lemma provider_result_ignores_status:
  assumes "respond W (url p) = FetchResponse r"
    and "respond W' (url p) = FetchResponse (r\<lparr>status := n\<rparr>)"
    and "number_text W' = number_text W"
  shows "provider_result W' p = provider_result W p"
proof -
  have h: "dom_string W' = dom_string W"
    by (simp add: fun_eq_iff dom_string_def to_string_def assms(3))
  have j: "response_json (r\<lparr>status := n\<rparr>) = response_json r"
    by (simp add: response_json_def)
  show ?thesis
    unfolding provider_result_def assms(1,2) h fetched.case j by (rule refl)
qed



lemma demo_page_present: "card_present demo_page"
  by (simp add: card_present_def demo_page_def card_ids_def js_def)

lemma demo_cards_present: "cards_present demo_page"
  by (simp add: cards_present_def demo_page_def card_ids_def js_def)




lemma demo_page_fields:
  "ipip_title demo_page = Some [22269, 20869, 27979, 35797]" "trace demo_page = []"
  "cards_container demo_page"
  by (simp_all add: demo_page_def)








subsection \<open>A second invocation\<close>

lemma elems_update_title:
  "elems (update_title n s) j =
     (if ipip_title s \<noteq> None \<and> j = js ''status-ipip''
      then Some \<lparr>children = [], className = js ''status-indicator status-success''\<rparr>
      else elems s j)"
  by (simp add: update_title_def elems_setStatus js_append split: option.splits)

lemma title_update_title:
  "ipip_title (update_title n s) = map_option (\<lambda>old. title_text n) (ipip_title s)"
  by (simp add: update_title_def split: option.splits)

lemma container_simps [simp]:
  "cards_container (update_title n s) = cards_container s"
  "cards_container (setStatus i st s) = cards_container s"
  "cards_container (put_children i c s) = cards_container s"
  by (simp_all add: update_title_def setStatus_def put_children_def split: option.splits)

lemma more_simps [simp]:
  "page.more (update_title n s) = page.more s"
  "page.more (setStatus i st s) = page.more s"
  "page.more (put_children i c s) = page.more s"
  by (simp_all add: update_title_def setStatus_def put_children_def split: option.splits)

lemma rest_shown_success [simp]:
  "cards_container (shown_success n r u) = cards_container u"
  "trace (shown_success n r u) = trace u"
  "page.more (shown_success n r u) = page.more u"
  by (cases r; simp add: shown_success_def overwrite3_def)+

lemma rest_shown_failure [simp]:
  "cards_container (shown_failure u) = cards_container u"
  "page.more (shown_failure u) = page.more u"
  "ipip_title (shown_failure u) = ipip_title u"
  by (simp_all add: shown_failure_def overwrite3_def)

lemma elems_shown_failure:
  "elems (shown_failure u) j =
     (if j = js ''ipip-ip'' then map_option (\<lambda>e. e\<lparr>children := [SpanNode (js ''error'') failed_text]\<rparr>) (elems u j)
      else if j = js ''ipip-country'' \<or> j = js ''ipip-city'' then map_option (\<lambda>e. e\<lparr>children := []\<rparr>) (elems u j)
      else if j = js ''status-ipip'' then map_option (\<lambda>e. e\<lparr>className := js ''status-indicator status-error''\<rparr>) (elems u j)
      else elems u j)"
  by (simp add: shown_failure_def overwrite3_def elems_setStatus elems_put_children js_append)

lemma shown_failure_idem:
  "shown_failure (setStatus (js ''status-ipip'') (js ''loading'') (shown_failure u)) = shown_failure u"
proof (rule page.equality)
  show "elems (shown_failure (setStatus (js ''status-ipip'') (js ''loading'') (shown_failure u)))
      = elems (shown_failure u)"
    by (rule ext) (simp add: elems_shown_failure elems_setStatus option.map_comp comp_def)
qed simp_all

lemma elems_shown_success:
  "elems (shown_success n (a, b, c) u) j =
     (if j = js ''status-ipip'' then
        (if ipip_title u \<noteq> None
         then Some \<lparr>children = [], className = js ''status-indicator status-success''\<rparr>
         else map_option (\<lambda>e. e\<lparr>className := js ''status-indicator status-success''\<rparr>) (elems u j))
      else if j = js ''ipip-ip'' then map_option (\<lambda>e. e\<lparr>children := text_children a\<rparr>) (elems u j)
      else if j = js ''ipip-country'' then map_option (\<lambda>e. e\<lparr>children := text_children b\<rparr>) (elems u j)
      else if j = js ''ipip-city'' then map_option (\<lambda>e. e\<lparr>children := text_children c\<rparr>) (elems u j)
      else elems u j)"
  by (simp add: shown_success_def overwrite3_def elems_update_title elems_setStatus
      elems_put_children js_append)

lemma title_shown_success:
  "ipip_title (shown_success n r u) = map_option (\<lambda>old. title_text n) (ipip_title u)"
  by (cases r) (simp add: shown_success_def overwrite3_def title_update_title)

lemma shown_success_idem:
  "shown_success n r (setStatus (js ''status-ipip'') (js ''loading'') (shown_success n r u))
     = shown_success n r u"
proof (cases r)
  case (fields a b c)
  show ?thesis
    unfolding fields
  proof (rule page.equality)
    show "elems (shown_success n (a, b, c)
        (setStatus (js ''status-ipip'') (js ''loading'') (shown_success n (a, b, c) u)))
        = elems (shown_success n (a, b, c) u)"
      by (rule ext)
         (simp add: elems_shown_success elems_setStatus title_shown_success option.map_comp comp_def)
    show "ipip_title (shown_success n (a, b, c)
        (setStatus (js ''status-ipip'') (js ''loading'') (shown_success n (a, b, c) u)))
        = ipip_title (shown_success n (a, b, c) u)"
      by (simp add: title_shown_success option.map_comp comp_def)
  qed simp_all
qed

lemma provider_result_cong:
  assumes "respond W2 = respond W1" and "number_text W2 = number_text W1"
  shows "provider_result W2 p = provider_result W1 p"
proof -
  have h: "dom_string W2 = dom_string W1"
    by (simp add: fun_eq_iff dom_string_def to_string_def assms(2))
  show ?thesis
    unfolding provider_result_def assms(1) h by (rule refl)
qed

lemma first_success_cong:
  assumes "respond W2 = respond W1" and "number_text W2 = number_text W1"
  shows "first_success W2 ps = first_success W1 ps"
proof (induction ps)
  case Nil
  show ?case by simp
next
  case (Cons p ps)
  have "provider_result W2 p = provider_result W1 p"
    using assms by (rule provider_result_cong)
  then show ?case by (simp add: Cons.IH split: sum.splits)
qed

lemma fetchIpipData_twice:
  fixes ps W1 W2 s
  defines "s1 \<equiv> snd (fetchIpipData_with ps W1 s)"
  assumes "card_present s" and "respond W2 = respond W1" and "number_text W2 = number_text W1"
  shows "fst (fetchIpipData_with ps W1 s) = Fulfilled
     \<and> fst (fetchIpipData_with ps W2 s1) = Fulfilled
     \<and> untraced (snd (fetchIpipData_with ps W2 s1)) = untraced s1"
proof -
  let ?L = "setStatus (js ''status-ipip'') (js ''loading'')"
  let ?F = "\<lambda>u. case first_success W1 ps of
            None \<Rightarrow> shown_failure (?L u)
          | Some (p, r) \<Rightarrow> shown_success (name p) r (?L u)"
  have fs: "first_success W2 ps = first_success W1 ps"
    using assms(3,4) by (rule first_success_cong)
  from fetchIpipData_char [OF assms(2), of ps W1] obtain t where
    t: "fetchIpipData_with ps W1 s = (Fulfilled, t)" "untraced t = untraced (?F s)"
    by auto
  have s1_eq: "s1 = t" unfolding s1_def t(1) by (rule snd_conv)
  have ut: "untraced t = ?F (untraced s)"
    unfolding t(2)
    by (cases "first_success W1 ps")
       (auto simp: untraced_shown_failure untraced_shown_success untraced_setStatus)
  have pt: "card_present t"
  proof -
    have "card_present (?F (untraced s))"
      using assms(2)
      by (cases "first_success W1 ps") (auto simp: shown_failure_def shown_success_def)
    then have "card_present (untraced t)" by (simp add: ut)
    then show ?thesis by simp
  qed
  from fetchIpipData_char [OF pt, of ps W2] obtain t2 where
    t2: "fetchIpipData_with ps W2 t = (Fulfilled, t2)"
      "untraced t2 = untraced (case first_success W2 ps of
            None \<Rightarrow> shown_failure (?L t)
          | Some (p, r) \<Rightarrow> shown_success (name p) r (?L t))"
    by auto
  have A: "untraced t2 = ?F (untraced t)"
    unfolding t2(2) fs
    by (cases "first_success W1 ps")
       (auto simp: untraced_shown_failure untraced_shown_success untraced_setStatus)
  have idem: "?F (?F u) = ?F u" for u
    by (cases "first_success W1 ps") (auto simp: shown_failure_idem shown_success_idem)
  have "untraced t2 = ?F (?F (untraced s))" unfolding A ut by (rule refl)
  also have "\<dots> = ?F (untraced s)" by (rule idem)
  also have "\<dots> = untraced t" by (rule ut [symmetric])
  finally have page_eq: "untraced t2 = untraced t" .
  have r1: "fst (fetchIpipData_with ps W1 s) = Fulfilled" unfolding t(1) by (rule fst_conv)
  have r2: "fst (fetchIpipData_with ps W2 s1) = Fulfilled" unfolding s1_eq t2(1) by (rule fst_conv)
  have r3: "snd (fetchIpipData_with ps W2 s1) = t2" unfolding s1_eq t2(1) by (rule snd_conv)
  show ?thesis unfolding r1 r2 r3 using page_eq s1_eq by blast
qed

text \<open>
  Claim C9.  On a page that has the card's elements, a second \<^verbatim>\<open>fetchIpipData\<close> in a
  world that answers as the first one did (the clock may differ) is fulfilled like the
  first and leaves the page, apart from the trace, exactly as the first invocation left
  it: the same three fields, status and title.  The list of providers is a constant of the
  function.
\<close>

theorem fetchIpipData_idempotent:
  fixes ps W1 W2 s
  defines "s1 \<equiv> snd (fetchIpipData_with ps W1 s)"
  assumes "card_present s" and "respond W2 = respond W1" and "number_text W2 = number_text W1"
  shows "fst (fetchIpipData_with ps W1 s) = Fulfilled
     \<and> fst (fetchIpipData_with ps W2 s1) = Fulfilled
     \<and> untraced (snd (fetchIpipData_with ps W2 s1)) = untraced s1"
  unfolding s1_def using assms(2-) by (rule fetchIpipData_twice)

theorem fetchIpipData_idempotent_witness:
  "card_present demo_page
   \<and> respond (demo_world_fallback\<lparr>clock := 5\<rparr>) = respond demo_world_fallback
   \<and> number_text (demo_world_fallback\<lparr>clock := 5\<rparr>) = number_text demo_world_fallback
   \<and> fst (fetchIpipData (demo_world_fallback\<lparr>clock := 5\<rparr>)
        (snd (fetchIpipData demo_world_fallback demo_page))) = Fulfilled
   \<and> untraced (snd (fetchIpipData (demo_world_fallback\<lparr>clock := 5\<rparr>)
        (snd (fetchIpipData demo_world_fallback demo_page))))
      = untraced (snd (fetchIpipData demo_world_fallback demo_page))"
proof -
  have r: "respond (demo_world_fallback\<lparr>clock := 5\<rparr>) = respond demo_world_fallback" by simp
  have n: "number_text (demo_world_fallback\<lparr>clock := 5\<rparr>) = number_text demo_world_fallback"
    by simp
  show ?thesis
    using demo_page_present fetchIpipData_idempotent [OF demo_page_present r n, of apiConfigs]
    by (simp add: fetchIpipData_def)
qed

section \<open>The four cards together\<close>

lemma keeps_andThen: "keeps m \<Longrightarrow> (\<And>x. keeps (f x)) \<Longrightarrow> keeps (andThen m f)"
  unfolding keeps_def andThen_def
  by (auto split: prod.splits sum.splits) (metis snd_conv)+

lemma keeps_pure_step: "keeps (pure_step r)"
  by (simp add: keeps_def pure_step_def)

lemma keeps_effect: "keeps_elements f \<Longrightarrow> keeps (effect f)"
  by (simp add: keeps_def keeps_elements_def effect_def)

lemma keeps_setStatus: "keeps_elements (setStatus i st)"
  by (simp add: keeps_elements_def elems_setStatus)

lemma keeps_console: "keeps_elements (console ev)"
  by (simp add: keeps_elements_def)

lemma keeps_update_title: "keeps_elements (update_title n)"
  by (simp add: keeps_elements_def elems_update_title)

lemma keeps_set_textContent: "keeps (set_textContent W i v)"
  by (auto simp: keeps_def set_textContent_def split: option.splits sum.splits)

lemma keeps_set_error_markup: "keeps (set_error_markup i)"
  by (auto simp: keeps_def set_error_markup_def split: option.splits)

lemma keeps_fetch: "keeps (fetch W u r)"
  by (auto simp: keeps_def fetch_def split: fetched.splits)

lemma keeps_try_catch: "keeps b \<Longrightarrow> keeps h \<Longrightarrow> keeps (try_catch b h)"
  unfolding keeps_def try_catch_def
  by (auto split: prod.splits sum.splits) (metis snd_conv)+

lemmas keeps_intros = keeps_andThen keeps_pure_step keeps_effect keeps_setStatus keeps_console
  keeps_update_title keeps_set_textContent keeps_set_error_markup keeps_fetch keeps_try_catch

lemma keeps_card_failure: "keeps (card_failure W c m)"
  unfolding card_failure_def by (intro keeps_intros)

lemma card_failure_runs:
  assumes "elems s (c @ js ''-ip'') \<noteq> None" and "elems s (c @ js ''-country'') \<noteq> None"
    and "elems s (c @ js ''-city'') \<noteq> None"
  shows "fst (card_failure W c m s) = Inr ()"
proof -
  have d: "dom_string W (Str []) = Inr []"
    by (simp add: dom_string_def to_string_def)
  show ?thesis
    using assms
    by (auto simp: card_failure_def andThen_def effect_def set_error_markup_def
        set_textContent_def d split: option.splits)
qed

lemma settle_try_catch:
  assumes "keeps b"
    and "\<And>t. (\<And>i. elems s i \<noteq> None \<Longrightarrow> elems t i \<noteq> None) \<Longrightarrow> fst (h t) = Inr ()"
  shows "fst (settle (try_catch b h) s) = Fulfilled"
proof (cases "b s")
  case (Pair r t)
  have k: "elems s i \<noteq> None \<Longrightarrow> elems t i \<noteq> None" for i
    using assms(1) Pair unfolding keeps_def by (metis snd_conv)
  show ?thesis
  proof (cases r)
    case (Inl e)
    have "fst (h t) = Inr ()" using k by (rule assms(2))
    then show ?thesis
      by (cases "h t") (simp add: settle_def try_catch_def Pair Inl)
  next
    case (Inr x)
    then show ?thesis by (simp add: settle_def try_catch_def Pair)
  qed
qed

lemma settle_keeps:
  "keeps m \<Longrightarrow> elems s i \<noteq> None \<Longrightarrow> elems (snd (settle m s)) i \<noteq> None"
  unfolding keeps_def settle_def
  by (cases "m s") (auto split: sum.splits, (metis snd_conv)+)

lemma keeps_try_provider: "keeps (try_provider W p)"
  unfolding try_provider_def by (intro keeps_intros)

lemma cascade_keeps:
  "elems s i \<noteq> None \<Longrightarrow> elems (snd (cascade W ps s)) i \<noteq> None"
proof (induction ps arbitrary: s)
  case Nil
  then show ?case by simp
next
  case (Cons p ps)
  obtain r t where rt: "try_provider W p s = (r, t)" by (cases "try_provider W p s")
  have t: "elems t i \<noteq> None"
    using keeps_try_provider [of W p] Cons.prems rt unfolding keeps_def by (metis snd_conv)
  show ?case
  proof (cases r)
    case (Inl e)
    have "elems (console (warn_failed (name p)) t) i \<noteq> None" using t by simp
    then show ?thesis using Cons.IH rt Inl by simp
  next
    case (Inr x)
    then show ?thesis using t rt by simp
  qed
qed

lemma keeps_ipip_failure: "keeps (ipip_failure W)"
  unfolding ipip_failure_def by (intro keeps_intros)

lemma fetchIpipData_keeps:
  assumes "elems s i \<noteq> None"
  shows "elems (snd (fetchIpipData_with ps W s)) i \<noteq> None"
proof -
  let ?s1 = "setStatus (js ''status-ipip'') (js ''loading'') s"
  have s1: "elems ?s1 i \<noteq> None" using assms by (auto simp: elems_setStatus)
  obtain ok s2 where c: "cascade W ps ?s1 = (ok, s2)" by (cases "cascade W ps ?s1")
  have s2: "elems s2 i \<noteq> None" using cascade_keeps [OF s1, of W ps] c by simp
  have "elems (snd (settle (ipip_failure W) s2)) i \<noteq> None"
    using keeps_ipip_failure s2 by (rule settle_keeps)
  then show ?thesis
    using s1 s2 c by (cases ok) (auto simp: fetchIpipData_with_def Let_def split: option.splits)
qed

lemma card_ids_present:
  assumes "cards_present s"
  shows "elems s (js ''status-ipip'') \<noteq> None" "elems s (js ''ipip-ip'') \<noteq> None"
    "elems s (js ''ipip-country'') \<noteq> None" "elems s (js ''ipip-city'') \<noteq> None"
    "elems s (js ''edgeone-ip'') \<noteq> None" "elems s (js ''edgeone-country'') \<noteq> None"
    "elems s (js ''edgeone-city'') \<noteq> None" "elems s (js ''cf-ip'') \<noteq> None"
    "elems s (js ''cf-country'') \<noteq> None" "elems s (js ''cf-city'') \<noteq> None"
    "elems s (js ''twitter-ip'') \<noteq> None" "elems s (js ''twitter-country'') \<noteq> None"
    "elems s (js ''twitter-city'') \<noteq> None"
  using assms by (simp_all add: cards_present_def card_ids_def)

lemma cards_present_kept:
  assumes "cards_present s" and "\<And>i. elems s i \<noteq> None \<Longrightarrow> elems t i \<noteq> None"
  shows "cards_present t"
  using assms by (simp add: cards_present_def list_all_iff)

lemma fetchEdgeOneData_fulfilled:
  assumes "cards_present s"
  shows "fst (fetchEdgeOneData W s) = Fulfilled" and "cards_present (snd (fetchEdgeOneData W s))"
proof -
  let ?s0 = "setStatus (js ''status-edgeone'') (js ''loading'') s"
  have p0: "cards_present ?s0"
    using assms by (rule cards_present_kept) (auto simp: elems_setStatus)
  show "fst (fetchEdgeOneData W s) = Fulfilled"
    unfolding fetchEdgeOneData_def
  proof (rule settle_try_catch)
    fix t :: page
    assume "\<And>i. elems ?s0 i \<noteq> None \<Longrightarrow> elems t i \<noteq> None"
    with p0 have "cards_present t" by (rule cards_present_kept)
    then show "fst (card_failure W (js ''edgeone'')
        [69, 100, 103, 101, 79, 110, 101, 32, 25509, 21475, 38169, 35823, 58] t) = Inr ()"
      by (intro card_failure_runs) (simp_all add: js_append card_ids_present)
  qed (intro keeps_intros)
  show "cards_present (snd (fetchEdgeOneData W s))"
    unfolding fetchEdgeOneData_def
    by (rule cards_present_kept [OF p0], rule settle_keeps) (intro keeps_intros keeps_card_failure)
qed

lemma fetchCloudFlareData_fulfilled:
  assumes "cards_present s"
  shows "fst (fetchCloudFlareData W s) = Fulfilled" and "cards_present (snd (fetchCloudFlareData W s))"
proof -
  let ?s0 = "setStatus (js ''status-cf'') (js ''loading'') s"
  have p0: "cards_present ?s0"
    using assms by (rule cards_present_kept) (auto simp: elems_setStatus)
  show "fst (fetchCloudFlareData W s) = Fulfilled"
    unfolding fetchCloudFlareData_def
  proof (rule settle_try_catch)
    fix t :: page
    assume "\<And>i. elems ?s0 i \<noteq> None \<Longrightarrow> elems t i \<noteq> None"
    with p0 have "cards_present t" by (rule cards_present_kept)
    then show "fst (card_failure W (js ''cf'')
        [67, 108, 111, 117, 100, 70, 108, 97, 114, 101, 32, 25509, 21475, 38169, 35823, 58] t)
        = Inr ()"
      by (intro card_failure_runs) (simp_all add: js_append card_ids_present)
  qed (intro keeps_intros)
  show "cards_present (snd (fetchCloudFlareData W s))"
    unfolding fetchCloudFlareData_def
    by (rule cards_present_kept [OF p0], rule settle_keeps) (intro keeps_intros keeps_card_failure)
qed

lemma fetchTwitterData_fulfilled:
  assumes "cards_present s"
  shows "fst (fetchTwitterData W s) = Fulfilled" and "cards_present (snd (fetchTwitterData W s))"
proof -
  let ?s0 = "setStatus (js ''status-twitter'') (js ''loading'') s"
  have p0: "cards_present ?s0"
    using assms by (rule cards_present_kept) (auto simp: elems_setStatus)
  show "fst (fetchTwitterData W s) = Fulfilled"
    unfolding fetchTwitterData_def Let_def
  proof (rule settle_try_catch)
    fix t :: page
    assume "\<And>i. elems ?s0 i \<noteq> None \<Longrightarrow> elems t i \<noteq> None"
    with p0 have "cards_present t" by (rule cards_present_kept)
    then show "fst (card_failure W (js ''twitter'')
        [25512, 29305, 20837, 21475, 25509, 21475, 38169, 35823, 58] t) = Inr ()"
      by (intro card_failure_runs) (simp_all add: js_append card_ids_present)
  qed (intro keeps_intros)
  show "cards_present (snd (fetchTwitterData W s))"
    unfolding fetchTwitterData_def Let_def
    by (rule cards_present_kept [OF p0], rule settle_keeps) (intro keeps_intros keeps_card_failure)
qed

lemma fetchIpipData_fulfilled:
  assumes "cards_present s"
  shows "fst (fetchIpipData W s) = Fulfilled" and "cards_present (snd (fetchIpipData W s))"
proof -
  have "card_present s"
    using assms by (simp add: card_present_def card_ids_present)
  from fetchIpipData_char [OF this, of apiConfigs W]
  show "fst (fetchIpipData W s) = Fulfilled"
    by (auto simp: fetchIpipData_def)
  show "cards_present (snd (fetchIpipData W s))"
    unfolding fetchIpipData_def
    using assms by (rule cards_present_kept) (rule fetchIpipData_keeps)
qed

lemma loadNetworkInfo_run:
  assumes "cards_present s"
  shows "fst (fetchIpipData W s) = Fulfilled \<and> fst (fetchEdgeOneData W s) = Fulfilled
     \<and> fst (fetchCloudFlareData W s) = Fulfilled \<and> fst (fetchTwitterData W s) = Fulfilled
     \<and> (cards_container s \<longrightarrow> loadNetworkInfo W s =
          (Fulfilled, markIpAsClickable (snd (fetchTwitterData W (snd (fetchCloudFlareData W
             (snd (fetchEdgeOneData W (snd (fetchIpipData W s)))))))))) "
proof -
  let ?s1 = "snd (fetchIpipData W s)"
  let ?s2 = "snd (fetchEdgeOneData W ?s1)"
  let ?s3 = "snd (fetchCloudFlareData W ?s2)"
  note a = fetchIpipData_fulfilled [OF assms, of W]
  note b = fetchEdgeOneData_fulfilled [OF a(2), of W]
  note c = fetchCloudFlareData_fulfilled [OF b(2), of W]
  note d = fetchTwitterData_fulfilled [OF c(2), of W]
  have "cards_container s \<Longrightarrow> loadNetworkInfo W s =
      (Fulfilled, markIpAsClickable (snd (fetchTwitterData W ?s3)))"
    using a(1) b(1) c(1) d(1)
    by (simp add: loadNetworkInfo_def split_beta Let_def)
  then show ?thesis
    using a(1) fetchEdgeOneData_fulfilled(1) [OF assms] fetchCloudFlareData_fulfilled(1) [OF assms]
      fetchTwitterData_fulfilled(1) [OF assms]
    by blast
qed

text \<open>
  Claim C7.  On a page that has the elements of the four cards, in every world (whatever
  fails, with every request settling), each of \<^verbatim>\<open>fetchIpipData\<close>, \<^verbatim>\<open>fetchEdgeOneData\<close>,
  \<^verbatim>\<open>fetchCloudFlareData\<close> and \<^verbatim>\<open>fetchTwitterData\<close> is fulfilled, never rejected, and
  leaves the elements of all four cards on the page, so that each of the others is
  fulfilled after it as well; with the cards container \<^verbatim>\<open>loadNetworkInfo\<close> is therefore
  fulfilled too, and \<^verbatim>\<open>markIpAsClickable\<close> runs on the page that all four have finished
  with.
\<close>

theorem loadNetworkInfo_joins:
  assumes "cards_present s"
  shows "fst (fetchIpipData W s) = Fulfilled \<and> cards_present (snd (fetchIpipData W s))
     \<and> fst (fetchEdgeOneData W s) = Fulfilled \<and> cards_present (snd (fetchEdgeOneData W s))
     \<and> fst (fetchCloudFlareData W s) = Fulfilled \<and> cards_present (snd (fetchCloudFlareData W s))
     \<and> fst (fetchTwitterData W s) = Fulfilled \<and> cards_present (snd (fetchTwitterData W s))
     \<and> (cards_container s \<longrightarrow> loadNetworkInfo W s =
          (Fulfilled, markIpAsClickable (snd (fetchTwitterData W (snd (fetchCloudFlareData W
             (snd (fetchEdgeOneData W (snd (fetchIpipData W s))))))))))"
  using loadNetworkInfo_run [OF assms, of W] fetchIpipData_fulfilled(2) [OF assms, of W]
    fetchEdgeOneData_fulfilled(2) [OF assms, of W] fetchCloudFlareData_fulfilled(2) [OF assms, of W]
    fetchTwitterData_fulfilled(2) [OF assms, of W]
  by blast

theorem loadNetworkInfo_joins_witness:
  "cards_present demo_page \<and> cards_container demo_page
   \<and> fst (fetchIpipData demo_world_down demo_page) = Fulfilled
   \<and> fst (fetchEdgeOneData demo_world_down demo_page) = Fulfilled
   \<and> fst (fetchCloudFlareData demo_world_fallback demo_page) = Fulfilled
   \<and> fst (fetchTwitterData demo_world_500 demo_page) = Fulfilled
   \<and> fst (loadNetworkInfo demo_world_down demo_page) = Fulfilled"
  using demo_cards_present loadNetworkInfo_joins [OF demo_cards_present, of demo_world_down]
    loadNetworkInfo_joins [OF demo_cards_present, of demo_world_fallback]
    loadNetworkInfo_joins [OF demo_cards_present, of demo_world_500]
  by (simp add: demo_page_fields)

section \<open>The detail lookup\<close>

lemma replace_all_map: "replace_all c d t = map (\<lambda>x. if x = c then d else x) t"
  by (induction t) simp_all

lemma detail_request:
  "fetchAndShowIpDetails_request e =
     (if has_child (js ''loading-spinner'') e \<or> trim (textContent e) = loading_text
         \<or> trim (textContent e) = unknown
      then None
      else Some (detail_prefix @ map (\<lambda>x. if x = 42 then 48 else x) (trim (textContent e))))"
  by (simp add: fetchAndShowIpDetails_request_def Let_def replace_all_map)

lemma demo_ip_text:
  "trim (textContent \<lparr>children = [TextNode (js '' 1.*.*.4 '')], className = js ''ip-text clickable''\<rparr>)
     = js ''1.*.*.4''"
  by (simp add: trim_def textContent_def is_ws_def js_def)

text \<open>
  Claim C8.  \<^verbatim>\<open>fetchAndShowIpDetails\<close> sends no request when the element has a spinner or
  its trimmed text is "loading..." or "unknown"; otherwise it requests the lookup address
  followed by the trimmed text in which each character \<^verbatim>\<open>*\<close> (code \<open>42\<close>) is \<^verbatim>\<open>0\<close> (code \<open>48\<close>)
  and every other character is as it was, position by position: \<^verbatim>\<open>1.2.*.4\<close> becomes
  \<^verbatim>\<open>1.2.0.4\<close>.
\<close>

theorem detail_request_sanitized:
  fixes e
  defines "ipText \<equiv> trim (textContent e)"
  shows "fetchAndShowIpDetails_request e =
       (if has_child (js ''loading-spinner'') e \<or> ipText = loading_text \<or> ipText = unknown
        then None
        else Some (detail_prefix @ map (\<lambda>x. if x = 42 then 48 else x) ipText))
     \<and> (\<forall>u. fetchAndShowIpDetails_request e = Some u \<longrightarrow>
           length u = length detail_prefix + length ipText
           \<and> take (length detail_prefix) u = detail_prefix
           \<and> (\<forall>i < length ipText.
                 u ! (length detail_prefix + i) = (if ipText ! i = 42 then 48 else ipText ! i)))
     \<and> replace_all 42 48 (js ''1.2.*.4'') = js ''1.2.0.4''"
proof -
  have "replace_all 42 48 (js ''1.2.*.4'') = js ''1.2.0.4''"
    by (simp add: js_def)
  then show ?thesis
    unfolding ipText_def by (auto simp: detail_request nth_append)
qed

theorem detail_request_sanitized_witness:
  "fetchAndShowIpDetails_request
      \<lparr>children = [TextNode (js '' 1.*.*.4 '')], className = js ''ip-text clickable''\<rparr>
     = Some (detail_prefix @ js ''1.0.0.4'')
   \<and> (2::nat) < length (js ''1.*.*.4'') \<and> js ''1.*.*.4'' ! 2 = 42
   \<and> (detail_prefix @ js ''1.0.0.4'') ! (length detail_prefix + 2) = 48"
proof -
  let ?e = "\<lparr>children = [TextNode (js '' 1.*.*.4 '')], className = js ''ip-text clickable''\<rparr>"
  have no_spinner: "\<not> has_child (js ''loading-spinner'') ?e"
    by (simp add: has_child_def)
  have other: "js ''1.*.*.4'' \<noteq> loading_text" "js ''1.*.*.4'' \<noteq> unknown"
    by (simp_all add: js_def loading_text_def unknown_def)
  have m: "map (\<lambda>x. if x = 42 then 48 else x) (js ''1.*.*.4'') = js ''1.0.0.4''"
    by (simp add: js_def)
  have req: "fetchAndShowIpDetails_request ?e = Some (detail_prefix @ js ''1.0.0.4'')"
    using detail_request_sanitized [of ?e] no_spinner other
    by (simp add: demo_ip_text m)
  have pos: "(detail_prefix @ js ''1.0.0.4'') ! (length detail_prefix + 2) = js ''1.0.0.4'' ! 2"
    by (rule nth_append_length_plus)
  have ch: "js ''1.0.0.4'' ! 2 = 48" "(2::nat) < length (js ''1.*.*.4'')" "js ''1.*.*.4'' ! 2 = 42"
    by (simp_all add: js_def)
  show ?thesis
    using req pos ch by (simp only: simp_thms)
qed

end
